theory Spec2Isabelle
  imports Complex_Main "HOL-Library.Sublist"
begin

section \<open>Strings\<close>

text \<open>
  A JavaScript string is a sequence of UTF-16 code units. The model uses \<open>string\<close>
  (\<open>char list\<close>), one \<open>char\<close> per code unit, so it covers the code units
  \<open>0x00\<close> to \<open>0xFF\<close>. In that range the characters that \<open>String.prototype.trim\<close>
  removes and that the regular expression class \<open>\s\<close> matches are the same seven:
  TAB, LF, VT, FF, CR, SPACE and NBSP.
\<close>

abbreviation LF :: char where
  "LF \<equiv> CHR 0x0A"

definition isWhiteSpace :: "char \<Rightarrow> bool" where
  "isWhiteSpace c =
     (c \<in> set [CHR 0x09, CHR 0x0A, CHR 0x0B, CHR 0x0C, CHR 0x0D, CHR 0x20, CHR 0xA0])"

text \<open>\<open>s.trim()\<close>\<close>

definition trim :: "string \<Rightarrow> string" where
  "trim s = rev (dropWhile isWhiteSpace (rev (dropWhile isWhiteSpace s)))"

text \<open>\<open>s.includes(sub)\<close>\<close>

fun str_includes :: "string \<Rightarrow> string \<Rightarrow> bool" where
  "str_includes [] sub = (sub = [])"
| "str_includes (c # cs) sub = (prefix sub (c # cs) \<or> str_includes cs sub)"

text \<open>The decimal text of a non-negative integer, as a template literal prints a status code.\<close>

definition digit :: "nat \<Rightarrow> char" where
  "digit d = ''0123456789'' ! d"

fun decimal :: "nat \<Rightarrow> string" where
  "decimal n = (if n < 10 then [digit n] else decimal (n div 10) @ [digit (n mod 10)])"

declare decimal.simps [simp del]

section \<open>The fence pattern of \<open>getAnimeBadge\<close>\<close>

text \<open>
  \<^verbatim>\<open>const fenceRegex = /^```(?:json)?\s*\n?([\s\S]*?)\n?\s*```$/;\<close>

  ECMAScript defines the meaning of a pattern by matchers that take a continuation: a
  matcher consumes a piece of the input and calls the continuation on the rest; when the
  continuation fails, the matcher tries its next alternative, a greedy quantifier from
  the longest piece down and a lazy one from the shortest up. The result of the match
  is the first success in that order. The matchers below are the ones the pattern is
  made of. The pattern has no \<open>m\<close> flag and starts with \<open>^\<close>, so it can match at
  index 0 only, and \<open>$\<close> holds at the end of the input only.
\<close>

type_synonym 'a continuation = "string \<Rightarrow> 'a option"

text \<open>A literal piece of text.\<close>

definition m_lit :: "string \<Rightarrow> 'a continuation \<Rightarrow> 'a continuation" where
  "m_lit p k s = (if prefix p s then k (drop (length p) s) else None)"

text \<open>\<open>x?\<close> for a literal \<open>x\<close>, greedy: with \<open>x\<close> first, then without.\<close>

definition m_opt_lit :: "string \<Rightarrow> 'a continuation \<Rightarrow> 'a continuation" where
  "m_opt_lit p k s = (case m_lit p k s of Some r \<Rightarrow> Some r | None \<Rightarrow> k s)"

text \<open>\<open>\s*\<close>, greedy: one more white space character first, then stop here.\<close>

fun m_star_space :: "'a continuation \<Rightarrow> 'a continuation" where
  "m_star_space k [] = k []"
| "m_star_space k (c # cs) =
     (if isWhiteSpace c
      then (case m_star_space k cs of Some r \<Rightarrow> Some r | None \<Rightarrow> k (c # cs))
      else k (c # cs))"

text \<open>
  \<open>([\s\S]*?)\<close>, lazy: stop here first, then take one more code unit (any code unit,
  line breaks included). \<open>acc\<close> is the text captured so far, reversed; the
  continuation receives the capture.
\<close>

fun m_lazy_any :: "(string \<Rightarrow> 'a continuation) \<Rightarrow> string \<Rightarrow> 'a continuation" where
  "m_lazy_any k acc [] = k (rev acc) []"
| "m_lazy_any k acc (c # cs) =
     (case k (rev acc) (c # cs) of Some r \<Rightarrow> Some r | None \<Rightarrow> m_lazy_any k (c # acc) cs)"

text \<open>\<open>$\<close>: succeed with the capture \<open>g\<close> at the end of the input.\<close>

definition m_end :: "'a \<Rightarrow> 'a continuation" where
  "m_end g s = (if s = [] then Some g else None)"

text \<open>The part of the pattern after the group: \<open>\n?\s*```$\<close>.\<close>

definition fenceTail :: "string \<Rightarrow> string continuation" where
  "fenceTail g = m_opt_lit [LF] (m_star_space (m_lit ''```'' (m_end g)))"

text \<open>\<open>jsonStr.match(fenceRegex)\<close>: \<open>None\<close> is \<open>null\<close>, \<open>Some g\<close> a match with \<open>match[1] = g\<close>.\<close>

definition fenceRegex :: "string \<Rightarrow> string option" where
  "fenceRegex =
     m_lit ''```'' (m_opt_lit ''json'' (m_star_space (m_opt_lit [LF]
       (m_lazy_any fenceTail []))))"

text \<open>
  \<^verbatim>\<open>
  const match = jsonStr.match(fenceRegex);
  if (match && match[1]) {
      jsonStr = match[1].trim();
  }
  \<close>
  An empty capture is falsy, so the text is then kept as it is.
\<close>

definition stripFence :: "string \<Rightarrow> string" where
  "stripFence jsonStr =
     (case fenceRegex jsonStr of
        None \<Rightarrow> jsonStr
      | Some g \<Rightarrow> if g \<noteq> [] then trim g else jsonStr)"


text \<open>
  Lines 125 to 131 of \<open>services/geminiService.ts\<close>, for a response text \<open>content\<close>:
  \<^verbatim>\<open>let jsonStr = content.trim();\<close> and then the fence step above.
\<close>

definition jsonStrOf :: "string \<Rightarrow> string" where
  "jsonStrOf content = stripFence (trim content)"

text \<open>
  The wrapping that the specification describes: three backquotes, an optional tag
  (empty or \<open>json\<close>), a line feed, the payload, a line feed, three backquotes.
\<close>

definition fenced :: "string \<Rightarrow> string \<Rightarrow> string" where
  "fenced tag payload = ''```'' @ tag @ [LF] @ payload @ [LF] @ ''```''"

text \<open>The inputs on which \<open>\n?\s*```$\<close> succeeds: white space, then the closing fence.\<close>

definition tailOk :: "string \<Rightarrow> bool" where
  "tailOk r = (\<exists>w. r = w @ ''```'' \<and> (\<forall>c\<in>set w. isWhiteSpace c))"

text \<open>
  \<^verbatim>\<open>error.message?.replace(/Bearer [^\s]+/g, 'Bearer [REDACTED]')\<close>:
  every leftmost occurrence of \<open>Bearer\<close>, a space and at least one non-space
  character is replaced, up to the end of the run of non-space characters.
\<close>

function redactBearer :: "string \<Rightarrow> string" where
  "redactBearer [] = []"
| "redactBearer (c # cs) =
     (if prefix ''Bearer '' (c # cs) \<and>
         takeWhile (\<lambda>x. \<not> isWhiteSpace x) (drop 7 (c # cs)) \<noteq> []
      then ''Bearer [REDACTED]'' @
           redactBearer (dropWhile (\<lambda>x. \<not> isWhiteSpace x) (drop 7 (c # cs)))
      else c # redactBearer cs)"
  by pat_completeness auto
termination
proof (relation "measure length")
  fix c :: char and cs :: string
  have "length (dropWhile (\<lambda>x. \<not> isWhiteSpace x) (drop 7 (c # cs))) \<le> length (drop 7 (c # cs))"
    by (rule length_dropWhile_le)
  then show "(dropWhile (\<lambda>x. \<not> isWhiteSpace x) (drop 7 (c # cs)), c # cs) \<in> measure length"
    by simp
qed simp_all

text \<open>\<^verbatim>\<open>error.message?.replace(...) || 'Unknown error'\<close>\<close>

definition sanitizedMessage :: "string \<Rightarrow> string" where
  "sanitizedMessage m = (let r = redactBearer m in if r = [] then ''Unknown error'' else r)"

section \<open>JavaScript values\<close>

text \<open>
  The values that \<open>JSON.parse\<close> and \<open>response.json()\<close> produce. A number is an IEEE
  double that is never NaN: a rational, or an infinity (\<open>JSON.parse("1e999")\<close>). An
  object is the list of its own properties, each key once. \<open>undefined\<close> is not a
  JSON value: a value that may be \<open>undefined\<close> has type \<open>jsval\<close>, with \<open>None\<close> for it.
\<close>

datatype jsnum = Finite rat | PosInfinity | NegInfinity

datatype json =
    JNull
  | JBool bool
  | JNum jsnum
  | JStr string
  | JArr "json list"
  | JObj "(string \<times> json) list"

type_synonym jsval = "json option"

text \<open>What \<open>if (v)\<close> and \<open>!v\<close> test.\<close>

fun truthy :: "json \<Rightarrow> bool" where
  "truthy JNull = False"
| "truthy (JBool b) = b"
| "truthy (JNum (Finite q)) = (q \<noteq> 0)"
| "truthy (JNum PosInfinity) = True"
| "truthy (JNum NegInfinity) = True"
| "truthy (JStr s) = (s \<noteq> [])"
| "truthy (JArr xs) = True"
| "truthy (JObj kvs) = True"

definition truthyV :: "jsval \<Rightarrow> bool" where
  "truthyV v = (case v of None \<Rightarrow> False | Some j \<Rightarrow> truthy j)"

text \<open>
  \<open>v[k]\<close> for a value \<open>v\<close> that is neither \<open>null\<close> nor \<open>undefined\<close>: the own
  properties of an object; \<open>length\<close> and the index properties of an array and of a
  string. The source reads fixed property names only (\<open>choices\<close>, \<open>0\<close>, \<open>message\<close>,
  \<open>content\<close>, \<open>characterName\<close>, \<open>anime\<close>, \<open>reason\<close>, \<open>badgeColor\<close>, \<open>image\<close>,
  \<open>base64\<close>, \<open>data\<close>, \<open>length\<close>, \<open>images\<close>, \<open>jpg\<close>, \<open>image_url\<close>), none of
  which a prototype defines, so inherited properties are left out here.
\<close>

fun ownProp :: "json \<Rightarrow> string \<Rightarrow> jsval" where
  "ownProp (JObj kvs) k = map_of kvs k"
| "ownProp (JArr xs) k =
     (if k = ''length'' then Some (JNum (Finite (of_nat (length xs))))
      else map_option (\<lambda>i. xs ! i) (find (\<lambda>i. decimal i = k) [0..<length xs]))"
| "ownProp (JStr s) k =
     (if k = ''length'' then Some (JNum (Finite (of_nat (length s))))
      else map_option (\<lambda>i. JStr [s ! i]) (find (\<lambda>i. decimal i = k) [0..<length s]))"
| "ownProp JNull k = None"
| "ownProp (JBool b) k = None"
| "ownProp (JNum n) k = None"

section \<open>Errors and the engine\<close>

text \<open>A thrown error object: the catch blocks read its \<open>name\<close> and its \<open>message\<close>.\<close>

record jserror =
  name :: string
  message :: string

definition Error :: "string \<Rightarrow> jserror" where
  "Error m = \<lparr>name = ''Error'', message = m\<rparr>"

definition TypeError :: "string \<Rightarrow> jserror" where
  "TypeError m = \<lparr>name = ''TypeError'', message = m\<rparr>"

definition SyntaxError :: "string \<Rightarrow> jserror" where
  "SyntaxError m = \<lparr>name = ''SyntaxError'', message = m\<rparr>"

text \<open>Sequencing of steps that may throw: the first error ends the block.\<close>

definition andThen :: "'e + 'a \<Rightarrow> ('a \<Rightarrow> 'e + 'b) \<Rightarrow> 'e + 'b" where
  "andThen r f = (case r of Inl e \<Rightarrow> Inl e | Inr x \<Rightarrow> f x)"

text \<open>
  What the language leaves to the engine, taken as a parameter:
  \<^item> \<open>JSON_parse\<close>: \<open>JSON.parse\<close>; \<open>Inl m\<close> is a thrown \<open>SyntaxError\<close> with the
    engine's message \<open>m\<close>;
  \<^item> \<open>nullishReadMessage v k\<close>: the message of the \<open>TypeError\<close> thrown by reading
    property \<open>k\<close> of \<open>v\<close>, for \<open>v\<close> \<open>null\<close> or \<open>undefined\<close>;
  \<^item> \<open>notAFunctionMessage v k\<close>: the message of the \<open>TypeError\<close> thrown by
    calling \<open>v.k()\<close> when \<open>v\<close> has no such method;
  \<^item> \<open>ToString\<close>: the text a template literal prints for a value that is not a string;
  \<^item> \<open>greaterThanZero\<close>: \<open>v > 0\<close> for a value that is not a number;
  \<^item> \<open>encodeURIComponent\<close>, which throws a \<open>URIError\<close> on some inputs.
\<close>

record engine =
  JSON_parse :: "string \<Rightarrow> string + json"
  nullishReadMessage :: "jsval \<Rightarrow> string \<Rightarrow> string"
  notAFunctionMessage :: "jsval \<Rightarrow> string \<Rightarrow> string"
  ToString :: "json \<Rightarrow> string"
  greaterThanZero :: "json \<Rightarrow> bool"
  encodeURIComponent :: "string \<Rightarrow> jserror + string"

text \<open>\<open>v.k\<close>: reading a property of \<open>null\<close> or \<open>undefined\<close> throws.\<close>

fun readProp :: "engine \<Rightarrow> jsval \<Rightarrow> string \<Rightarrow> jserror + jsval" where
  "readProp eng None k = Inl (TypeError (nullishReadMessage eng None k))"
| "readProp eng (Some JNull) k = Inl (TypeError (nullishReadMessage eng (Some JNull) k))"
| "readProp eng (Some j) k = Inr (ownProp j k)"

text \<open>\<open>v?.k\<close>: \<open>undefined\<close> for \<open>null\<close> and \<open>undefined\<close>.\<close>

fun readPropOpt :: "jsval \<Rightarrow> string \<Rightarrow> jsval" where
  "readPropOpt None k = None"
| "readPropOpt (Some JNull) k = None"
| "readPropOpt (Some j) k = ownProp j k"

section \<open>Network\<close>

text \<open>
  A \<open>fetch\<close> either rejects (\<open>Inl\<close>: a network failure, or an \<open>AbortError\<close> when the
  timeout aborts the request) or resolves to a response. \<open>body_text\<close> and
  \<open>body_json\<close> are what \<open>response.text()\<close> and \<open>response.json()\<close> settle to.
\<close>

record response =
  status :: nat
  statusText :: string
  body_text :: "jserror + string"
  body_json :: "jserror + json"

definition ok :: "response \<Rightarrow> bool" where
  "ok r = (200 \<le> status r \<and> status r \<le> 299)"

type_synonym fetched = "jserror + response"

text \<open>A request that was issued: its URL and the text it carries.\<close>

record request =
  url :: string
  payload :: string


section \<open>\<open>services/githubService.ts\<close>\<close>

text \<open>
  \<open>Promise.all\<close> of the two fetches: both responses when both resolve, else the
  reason of the promise that rejected first. When both reject, \<open>order\<close> says which
  one did so first.
\<close>

datatype rejection_order = UserFirst | ReposFirst

fun promiseAll :: "rejection_order \<Rightarrow> fetched \<Rightarrow> fetched \<Rightarrow> jserror + response \<times> response" where
  "promiseAll order (Inr a) (Inr b) = Inr (a, b)"
| "promiseAll order (Inl e) (Inr b) = Inl e"
| "promiseAll order (Inr a) (Inl e) = Inl e"
| "promiseAll UserFirst (Inl e1) (Inl e2) = Inl e1"
| "promiseAll ReposFirst (Inl e1) (Inl e2) = Inl e2"

text \<open>
  The \<open>try\<close> block of \<open>getUserProfileData\<close>. \<open>userFetch\<close> is the outcome of the
  request for \<open>/users/{username}\<close>, \<open>reposFetch\<close> that of the request for the
  repositories. The result \<open>{ user: userData, repos: repoData }\<close> is the pair of the
  two parsed bodies; nothing checks their shape.
\<close>

definition getUserProfileData_try ::
  "rejection_order \<Rightarrow> fetched \<Rightarrow> fetched \<Rightarrow> string \<Rightarrow> jserror + json \<times> json" where
  "getUserProfileData_try order userFetch reposFetch username =
     andThen (promiseAll order userFetch reposFetch) (\<lambda>(userResponse, reposResponse).
       if \<not> ok userResponse then
         (if status userResponse = 404
          then Inl (Error (''GitHub user not found: '' @ username @ ''.''))
          else Inl (Error (''Failed to fetch user data. Status: '' @ decimal (status userResponse))))
       else if \<not> ok reposResponse then
         Inl (Error (''Failed to fetch repository data. Status: '' @ decimal (status reposResponse)))
       else
         andThen (body_json userResponse) (\<lambda>userData.
         andThen (body_json reposResponse) (\<lambda>repoData.
           Inr (userData, repoData))))"

text \<open>
  \<^verbatim>\<open>
  } catch (error: any) {
    if (error.message.includes('API rate limit exceeded')) {
        throw new Error('GitHub API rate limit exceeded. Please wait and try again later.');
    }
    throw error;
  }
  \<close>
\<close>

definition getUserProfileData_catch :: "jserror \<Rightarrow> jserror" where
  "getUserProfileData_catch error =
     (if str_includes (message error) ''API rate limit exceeded''
      then Error ''GitHub API rate limit exceeded. Please wait and try again later.''
      else error)"

definition getUserProfileData ::
  "rejection_order \<Rightarrow> fetched \<Rightarrow> fetched \<Rightarrow> string \<Rightarrow> jserror + json \<times> json" where
  "getUserProfileData order userFetch reposFetch username =
     (case getUserProfileData_try order userFetch reposFetch username of
        Inl error \<Rightarrow> Inl (getUserProfileData_catch error)
      | Inr profile \<Rightarrow> Inr profile)"

section \<open>\<open>types.ts\<close>\<close>

text \<open>
  \<open>number\<close> is \<open>jsnum\<close>, \<open>string | null\<close> is \<open>string option\<close>. The field \<open>id\<close> of
  a user and of a repository, and the fields \<open>name\<close> and \<open>html_url\<close>, carry the
  record's name in front, since a record field is a constant of the theory.
\<close>

record GithubUser =
  login :: string
  user_id :: jsnum
  avatar_url :: string
  user_html_url :: string
  user_name :: "string option"
  bio :: "string option"
  public_repos :: jsnum
  followers :: jsnum

record GithubRepo =
  repo_id :: jsnum
  repo_name :: string
  full_name :: string
  description :: "string option"
  stargazers_count :: jsnum
  forks_count :: jsnum
  language :: "string option"
  repo_html_url :: string
  topics :: "string list"

record UserProfile =
  user :: GithubUser
  repos :: "GithubRepo list"

text \<open>
  \<open>generateAvatar\<close> guards against a badge whose fields are missing, so a field of
  the badge it receives is a \<open>string option\<close>: \<open>None\<close> is a field that is absent (a
  \<open>null\<close> badge is the badge with every field absent).
\<close>

record AnimeBadge =
  characterName :: "string option"
  anime :: "string option"
  reason :: "string option"
  badgeColor :: "string option"

text \<open>\<open>!field\<close> is true for an absent field and for the empty string.\<close>

definition truthyField :: "string option \<Rightarrow> bool" where
  "truthyField f = (case f of None \<Rightarrow> False | Some s \<Rightarrow> s \<noteq> [])"

text \<open>A field inside a template literal.\<close>

definition templated :: "string option \<Rightarrow> string" where
  "templated f = (case f of None \<Rightarrow> ''undefined'' | Some s \<Rightarrow> s)"

section \<open>\<open>services/geminiService.ts\<close>: \<open>getAnimeBadge\<close>\<close>

text \<open>
  The environment of one call: \<open>process.env.OPENROUTER_API_KEY\<close> and the outcome of
  the POST to the chat-completion endpoint. \<open>generateUserPrompt\<close> builds the prompt
  from a typed profile without throwing; the prompt's text travels in the request and
  has no other influence on the result, so it is not part of the model.
\<close>

record badge_env =
  OPENROUTER_API_KEY :: "string option"
  chat_completion :: fetched

definition getOpenRouterKey :: "string option \<Rightarrow> jserror + string" where
  "getOpenRouterKey key =
     (if \<not> truthyField key then Inl (Error ''OPENROUTER_API_KEY environment variable not set'')
      else Inr (templated key))"

text \<open>
  \<^verbatim>\<open>
  if (!data.choices || !data.choices[0] || !data.choices[0].message) {
    throw new Error("Invalid response structure from OpenRouter API");
  }
  ... data.choices[0].message.content ...
  \<close>
\<close>

definition messageContent :: "engine \<Rightarrow> json \<Rightarrow> jserror + jsval" where
  "messageContent eng data =
     andThen (readProp eng (Some data) ''choices'') (\<lambda>choices.
       if \<not> truthyV choices then Inl (Error ''Invalid response structure from OpenRouter API'')
       else andThen (readProp eng choices ''0'') (\<lambda>first.
         if \<not> truthyV first then Inl (Error ''Invalid response structure from OpenRouter API'')
         else andThen (readProp eng first ''message'') (\<lambda>msg.
           if \<not> truthyV msg then Inl (Error ''Invalid response structure from OpenRouter API'')
           else readProp eng msg ''content'')))"

text \<open>\<open>content.trim()\<close> and the fence step; \<open>trim\<close> exists on strings only.\<close>

fun jsonStrOfContent :: "engine \<Rightarrow> jsval \<Rightarrow> jserror + string" where
  "jsonStrOfContent eng (Some (JStr s)) = Inr (jsonStrOf s)"
| "jsonStrOfContent eng None = Inl (TypeError (nullishReadMessage eng None ''trim''))"
| "jsonStrOfContent eng (Some JNull) = Inl (TypeError (nullishReadMessage eng (Some JNull) ''trim''))"
| "jsonStrOfContent eng (Some j) = Inl (TypeError (notAFunctionMessage eng (Some j) ''trim''))"

text \<open>
  \<^verbatim>\<open>
  const parsedData: AnimeBadge = JSON.parse(jsonStr);
  if (!parsedData.characterName || !parsedData.anime || !parsedData.reason || !parsedData.badgeColor) {
      throw new Error("AI response is missing required fields.");
  }
  return parsedData;
  \<close>
\<close>

definition parseBadge :: "engine \<Rightarrow> string \<Rightarrow> jserror + json" where
  "parseBadge eng jsonStr =
     (case JSON_parse eng jsonStr of
        Inl m \<Rightarrow> Inl (SyntaxError m)
      | Inr parsedData \<Rightarrow>
          andThen (readProp eng (Some parsedData) ''characterName'') (\<lambda>f1.
            if \<not> truthyV f1 then Inl (Error ''AI response is missing required fields.'')
            else andThen (readProp eng (Some parsedData) ''anime'') (\<lambda>f2.
              if \<not> truthyV f2 then Inl (Error ''AI response is missing required fields.'')
              else andThen (readProp eng (Some parsedData) ''reason'') (\<lambda>f3.
                if \<not> truthyV f3 then Inl (Error ''AI response is missing required fields.'')
                else andThen (readProp eng (Some parsedData) ''badgeColor'') (\<lambda>f4.
                  if \<not> truthyV f4 then Inl (Error ''AI response is missing required fields.'')
                  else Inr parsedData)))))"

text \<open>The \<open>try\<close> block, lines 78 to 139.\<close>

definition getAnimeBadge_try :: "engine \<Rightarrow> badge_env \<Rightarrow> UserProfile \<Rightarrow> jserror + json" where
  "getAnimeBadge_try eng env profileData =
     andThen (getOpenRouterKey (OPENROUTER_API_KEY env)) (\<lambda>key.
     andThen (chat_completion env) (\<lambda>response.
       if \<not> ok response then
         andThen (body_text response) (\<lambda>errorText.
           Inl (Error (''OpenRouter API error: '' @ decimal (status response) @ '' '' @
                       statusText response @ '' - '' @ errorText)))
       else
         andThen (body_json response) (\<lambda>data.
         andThen (messageContent eng data) (\<lambda>content.
         andThen (jsonStrOfContent eng content) (\<lambda>jsonStr.
           parseBadge eng jsonStr)))))"

text \<open>The \<open>catch\<close> block, lines 141 to 157.\<close>

definition getAnimeBadge_catch :: "jserror \<Rightarrow> jserror" where
  "getAnimeBadge_catch error =
     (if name error = ''AbortError'' then Error ''Request timed out. Please try again.''
      else if str_includes (message error) ''JSON.parse''
        then Error ''The AI returned an invalid response. Please try again.''
      else if str_includes (message error) ''environment variable'' then error
      else Error (''Failed to get anime badge from OpenRouter: '' @ sanitizedMessage (message error)))"

text \<open>
  \<^verbatim>\<open>
  if (!profileData?.user?.login || !Array.isArray(profileData.repos)) {
    throw new Error("Invalid profile data provided");
  }
  \<close>
  \<open>repos\<close> of a typed profile is an array, so the guard tests the login.
\<close>

definition getAnimeBadge :: "engine \<Rightarrow> badge_env \<Rightarrow> UserProfile \<Rightarrow> jserror + json" where
  "getAnimeBadge eng env profileData =
     (if login (user profileData) = [] then Inl (Error ''Invalid profile data provided'')
      else case getAnimeBadge_try eng env profileData of
             Inl error \<Rightarrow> Inl (getAnimeBadge_catch error)
           | Inr parsedData \<Rightarrow> Inr parsedData)"

text \<open>
  What the guard of lines 121 to 123 tests on a body that is not \<open>null\<close>:
  \<open>choices\<close>, \<open>choices[0]\<close> and \<open>choices[0].message\<close> are present and truthy.
\<close>

definition responseStructurePresent :: "json \<Rightarrow> bool" where
  "responseStructurePresent data =
     (truthyV (readPropOpt (Some data) ''choices'') \<and>
      truthyV (readPropOpt (readPropOpt (Some data) ''choices'') ''0'') \<and>
      truthyV (readPropOpt (readPropOpt (readPropOpt (Some data) ''choices'') ''0'') ''message''))"

text \<open>
  The four required fields of a returned badge are present and truthy (for a string:
  not empty).
\<close>

definition requiredFieldsPresent :: "json \<Rightarrow> bool" where
  "requiredFieldsPresent v =
     (truthyV (ownProp v ''characterName'') \<and> truthyV (ownProp v ''anime'') \<and>
      truthyV (ownProp v ''reason'') \<and> truthyV (ownProp v ''badgeColor''))"

text \<open>
  The specification's pattern for a badge colour, \<open>^#[0-9A-Fa-f]{6}$\<close>: a hash sign
  and exactly six hexadecimal digits.
\<close>

definition matchesHexColor :: "string \<Rightarrow> bool" where
  "matchesHexColor s =
     (case s of
        [] \<Rightarrow> False
      | h # ds \<Rightarrow> h = CHR ''#'' \<and> length ds = 6 \<and>
                  list_all (\<lambda>c. c \<in> set ''0123456789ABCDEFabcdef'') ds)"


section \<open>\<open>services/geminiService.ts\<close>: \<open>generateAvatar\<close>, image generation\<close>

text \<open>
  Both variants of \<open>generateAvatar\<close> return the requests they issued, in order,
  beside their result.
\<close>

record image_env =
  IMAGEROUTER_API_KEY :: "string option"
  image_generation :: fetched

definition getImageRouterKey :: "string option \<Rightarrow> jserror + string" where
  "getImageRouterKey key =
     (if \<not> truthyField key then Inl (Error ''IMAGEROUTER_API_KEY environment variable not set'')
      else Inr (templated key))"

definition avatarPrompt :: "AnimeBadge \<Rightarrow> string" where
  "avatarPrompt badge =
     ''Create a visually stunning, anime-style avatar for a GitHub profile picture. The character is '' @
     templated (characterName badge) @ '' from '' @ templated (anime badge) @
     ''. The avatar should be a circular headshot, vibrant, and capture their essence. The background should be simple and abstract, using thematic colors like '' @
     templated (badgeColor badge) @
     ''. The style should be modern anime, clean, and professional.''"

text \<open>A truthy value inside a template literal.\<close>

fun templatedValue :: "engine \<Rightarrow> jsval \<Rightarrow> string" where
  "templatedValue eng None = ''undefined''"
| "templatedValue eng (Some (JStr s)) = s"
| "templatedValue eng (Some j) = ToString eng j"

text \<open>
  The \<open>try\<close> block, lines 166 to 205. The key is read while the arguments of
  \<open>fetch\<close> are evaluated: without a key no request is issued.
\<close>

definition generateAvatar_try ::
  "engine \<Rightarrow> image_env \<Rightarrow> AnimeBadge \<Rightarrow> request list \<times> (jserror + string)" where
  "generateAvatar_try eng env badge =
     (let prompt = avatarPrompt badge in
      case getImageRouterKey (IMAGEROUTER_API_KEY env) of
        Inl error \<Rightarrow> ([], Inl error)
      | Inr key \<Rightarrow>
          ([\<lparr>url = ''https://api.imagerouter.ai/v1/generate'', payload = prompt\<rparr>],
           andThen (image_generation env) (\<lambda>response.
             if \<not> ok response then
               Inl (Error (''ImageRouter API error: '' @ decimal (status response) @ '' '' @
                           statusText response))
             else
               andThen (body_json response) (\<lambda>data.
               andThen (readProp eng (Some data) ''image'') (\<lambda>image.
                 if \<not> truthyV image then Inl (Error ''ImageRouter model did not return an image.'')
                 else andThen (readProp eng image ''base64'') (\<lambda>base64.
                   if \<not> truthyV base64 then Inl (Error ''ImageRouter model did not return an image.'')
                   else Inr (''data:image/jpeg;base64,'' @ templatedValue eng base64)))))))"

text \<open>The \<open>catch\<close> block, lines 207 to 220.\<close>

definition generateAvatar_catch :: "jserror \<Rightarrow> jserror" where
  "generateAvatar_catch error =
     (if name error = ''AbortError''
        then Error ''Image generation request timed out. Please try again.''
      else if str_includes (message error) ''environment variable'' then error
      else Error (''Failed to generate the character avatar: '' @ sanitizedMessage (message error) @
                  ''. Please try again.''))"

text \<open>
  \<^verbatim>\<open>
  if (!badge?.characterName || !badge?.anime || !badge?.badgeColor) {
      throw new Error("Invalid badge data provided");
  }
  \<close>
\<close>

definition generateAvatar ::
  "engine \<Rightarrow> image_env \<Rightarrow> AnimeBadge \<Rightarrow> request list \<times> (jserror + string)" where
  "generateAvatar eng env badge =
     (if \<not> truthyField (characterName badge) \<or> \<not> truthyField (anime badge) \<or>
         \<not> truthyField (badgeColor badge)
      then ([], Inl (Error ''Invalid badge data provided''))
      else case generateAvatar_try eng env badge of
             (requests, Inl error) \<Rightarrow> (requests, Inl (generateAvatar_catch error))
           | (requests, Inr dataUrl) \<Rightarrow> (requests, Inr dataUrl))"

section \<open>\<open>services/geminiService.ts\<close>: \<open>generateAvatar\<close>, lookup\<close>

definition characterImages :: "(string \<times> string) list" where
  "characterImages =
     [(''Naruto'', ''https://cdn.myanimelist.net/images/characters/2/284121.jpg''),
      (''Sasuke'', ''https://cdn.myanimelist.net/images/characters/9/131317.jpg''),
      (''Kakashi'', ''https://cdn.myanimelist.net/images/characters/7/284129.jpg''),
      (''Sakura'', ''https://cdn.myanimelist.net/images/characters/9/69275.jpg''),
      (''Itachi'', ''https://cdn.myanimelist.net/images/characters/9/284167.jpg''),
      (''Gaara'', ''https://cdn.myanimelist.net/images/characters/8/284139.jpg''),
      (''Rock Lee'', ''https://cdn.myanimelist.net/images/characters/11/253723.jpg''),
      (''Neji'', ''https://cdn.myanimelist.net/images/characters/2/284133.jpg''),
      (''Shikamaru'', ''https://cdn.myanimelist.net/images/characters/3/284135.jpg''),
      (''Hinata'', ''https://cdn.myanimelist.net/images/characters/5/284137.jpg''),
      (''Tanjiro'', ''https://cdn.myanimelist.net/images/characters/15/271763.jpg''),
      (''Nezuko'', ''https://cdn.myanimelist.net/images/characters/3/271765.jpg''),
      (''Zenitsu'', ''https://cdn.myanimelist.net/images/characters/7/271767.jpg''),
      (''Inosuke'', ''https://cdn.myanimelist.net/images/characters/9/271769.jpg''),
      (''Giyu'', ''https://cdn.myanimelist.net/images/characters/11/271771.jpg''),
      (''Rengoku'', ''https://cdn.myanimelist.net/images/characters/13/271773.jpg''),
      (''Shinobu'', ''https://cdn.myanimelist.net/images/characters/5/271775.jpg''),
      (''Mitsuri'', ''https://cdn.myanimelist.net/images/characters/7/271777.jpg''),
      (''Obanai'', ''https://cdn.myanimelist.net/images/characters/9/271779.jpg''),
      (''Tengen'', ''https://cdn.myanimelist.net/images/characters/11/271781.jpg'')]"

definition fallbackImages :: "(string \<times> string) list" where
  "fallbackImages =
     [(''Naruto'', ''https://cdn.myanimelist.net/images/characters/2/284121.jpg''),
      (''Demon Slayer'', ''https://cdn.myanimelist.net/images/characters/15/271763.jpg'')]"

text \<open>
  Both tables are object literals, and the key that indexes them comes from the badge.
  An object literal inherits from \<open>Object.prototype\<close>, so \<open>table[key]\<close> is a function
  or an object, not \<open>undefined\<close>, when \<open>key\<close> names one of its members.
\<close>

definition objectPrototypeMembers :: "string list" where
  "objectPrototypeMembers =
     [''constructor'', ''hasOwnProperty'', ''isPrototypeOf'', ''propertyIsEnumerable'',
      ''toLocaleString'', ''toString'', ''valueOf'', ''__proto__'', ''__defineGetter__'',
      ''__defineSetter__'', ''__lookupGetter__'', ''__lookupSetter__'']"

text \<open>What the lookup variant can return: a value, or a member of \<open>Object.prototype\<close>.\<close>

datatype returned = Value json | PrototypeMember string

definition literalRead :: "(string \<times> string) list \<Rightarrow> string \<Rightarrow> returned option" where
  "literalRead table k =
     (case map_of table k of
        Some v \<Rightarrow> Some (Value (JStr v))
      | None \<Rightarrow> if k \<in> set objectPrototypeMembers then Some (PrototypeMember k) else None)"

fun truthyR :: "returned option \<Rightarrow> bool" where
  "truthyR None = False"
| "truthyR (Some (Value j)) = truthy j"
| "truthyR (Some (PrototypeMember k)) = True"

record lookup_env =
  character_search :: fetched

text \<open>\<open>v > 0\<close>\<close>

fun jsGreaterThanZero :: "engine \<Rightarrow> jsval \<Rightarrow> bool" where
  "jsGreaterThanZero eng None = False"
| "jsGreaterThanZero eng (Some (JNum (Finite q))) = (q > 0)"
| "jsGreaterThanZero eng (Some (JNum PosInfinity)) = True"
| "jsGreaterThanZero eng (Some (JNum NegInfinity)) = False"
| "jsGreaterThanZero eng (Some j) = greaterThanZero eng j"

text \<open>
  \<^verbatim>\<open>data.data && data.data.length > 0 && data.data[0].images?.jpg?.image_url\<close>:
  the image URL when the whole condition is truthy, \<open>None\<close> when it is falsy.
\<close>

definition firstImageUrl :: "engine \<Rightarrow> json \<Rightarrow> jserror + jsval" where
  "firstImageUrl eng data =
     andThen (readProp eng (Some data) ''data'') (\<lambda>d.
       if \<not> truthyV d then Inr None
       else andThen (readProp eng d ''length'') (\<lambda>n.
         if \<not> jsGreaterThanZero eng n then Inr None
         else andThen (readProp eng d ''0'') (\<lambda>first.
           andThen (readProp eng first ''images'') (\<lambda>images.
             let image_url = readPropOpt (readPropOpt images ''jpg'') ''image_url''
             in Inr (if truthyV image_url then image_url else None)))))"

text \<open>\<^verbatim>\<open>fallbackImages[badge.anime] || fallbackImages['Naruto']\<close>\<close>

definition seriesDefault :: "AnimeBadge \<Rightarrow> returned option" where
  "seriesDefault badge =
     (let r = literalRead fallbackImages (templated (anime badge))
      in if truthyR r then r else literalRead fallbackImages ''Naruto'')"

text \<open>Lines 357 to 382: the search, and the default of the series.\<close>

definition searchCharacter ::
  "engine \<Rightarrow> lookup_env \<Rightarrow> AnimeBadge \<Rightarrow> request list \<times> (jserror + returned option)" where
  "searchCharacter eng env badge =
     (case encodeURIComponent eng (templated (characterName badge) @ '' '' @ templated (anime badge)) of
        Inl error \<Rightarrow> ([], Inl error)
      | Inr searchQuery \<Rightarrow>
          ([\<lparr>url = ''https://api.jikan.moe/v4/characters?q='' @ searchQuery @ ''&limit=1'',
             payload = []\<rparr>],
           andThen (character_search env) (\<lambda>response.
             if \<not> ok response then Inl (Error (''Jikan API error: '' @ decimal (status response)))
             else
               andThen (body_json response) (\<lambda>data.
               andThen (firstImageUrl eng data) (\<lambda>image_url.
                 case image_url of
                   Some u \<Rightarrow> Inr (Some (Value u))
                 | None \<Rightarrow> Inr (seriesDefault badge))))))"

text \<open>The \<open>try\<close> block, lines 350 to 382.\<close>

definition generateAvatar_lookup_try ::
  "engine \<Rightarrow> lookup_env \<Rightarrow> AnimeBadge \<Rightarrow> request list \<times> (jserror + returned option)" where
  "generateAvatar_lookup_try eng env badge =
     (let characterImage = literalRead characterImages (templated (characterName badge))
      in if truthyR characterImage then ([], Inr characterImage)
         else searchCharacter eng env badge)"

text \<open>
  The lookup variant, lines 344 to 390. Its \<open>catch\<close> block returns the image of
  Naruto for every error.
\<close>

definition generateAvatar_lookup ::
  "engine \<Rightarrow> lookup_env \<Rightarrow> AnimeBadge \<Rightarrow> request list \<times> (jserror + returned option)" where
  "generateAvatar_lookup eng env badge =
     (if \<not> truthyField (characterName badge) \<or> \<not> truthyField (anime badge)
      then ([], Inl (Error ''Invalid badge data provided''))
      else case generateAvatar_lookup_try eng env badge of
             (requests, Inl error) \<Rightarrow>
               (requests,
                Inr (Some (Value (JStr ''https://cdn.myanimelist.net/images/characters/2/284121.jpg''))))
           | (requests, Inr avatar) \<Rightarrow> (requests, Inr avatar))"

text \<open>
  The call to the character-search endpoint fails: the request is rejected, or the
  response has a status outside 200 to 299.
\<close>

definition searchFails :: "lookup_env \<Rightarrow> bool" where
  "searchFails env = (case character_search env of Inl error \<Rightarrow> True | Inr response \<Rightarrow> \<not> ok response)"

text \<open>The result of a call, without the requests.\<close>

abbreviation outcome :: "request list \<times> 'a \<Rightarrow> 'a" where
  "outcome \<equiv> snd"


section \<open>Example inputs\<close>

text \<open>
  The engine of the examples answers as V8 does (Node.js 20, Chrome) on the inputs
  the examples reach: its \<open>JSON.parse\<close> knows the three badge texts below and rejects
  every other text with V8's message for an unexpected first character; its
  \<open>encodeURIComponent\<close> is the standard one on the code units \<open>0x00\<close> to \<open>0xFF\<close>;
  its \<open>ToString\<close> and \<open>greaterThanZero\<close> are V8's on objects; no example calls
  them.
\<close>

definition orangeBadgeText :: string where
  "orangeBadgeText =
     ''{\"characterName\":\"Naruto\",\"anime\":\"Naruto\",\"reason\":\"Ships fast\",\"badgeColor\":\"#FF7F00\"}''"

definition orangeBadge :: json where
  "orangeBadge =
     JObj [(''characterName'', JStr ''Naruto''), (''anime'', JStr ''Naruto''),
           (''reason'', JStr ''Ships fast''), (''badgeColor'', JStr ''#FF7F00'')]"

definition redBadgeText :: string where
  "redBadgeText =
     ''{\"characterName\":\"Naruto\",\"anime\":\"Naruto\",\"reason\":\"Ships fast\",\"badgeColor\":\"red\"}''"

definition redBadge :: json where
  "redBadge =
     JObj [(''characterName'', JStr ''Naruto''), (''anime'', JStr ''Naruto''),
           (''reason'', JStr ''Ships fast''), (''badgeColor'', JStr ''red'')]"

definition colourlessBadgeText :: string where
  "colourlessBadgeText =
     ''{\"characterName\":\"Naruto\",\"anime\":\"Naruto\",\"reason\":\"Ships fast\"}''"

definition colourlessBadge :: json where
  "colourlessBadge =
     JObj [(''characterName'', JStr ''Naruto''), (''anime'', JStr ''Naruto''),
           (''reason'', JStr ''Ships fast'')]"

definition v8_JSON_parse :: "string \<Rightarrow> string + json" where
  "v8_JSON_parse s =
     (if s = orangeBadgeText then Inr orangeBadge
      else if s = redBadgeText then Inr redBadge
      else if s = colourlessBadgeText then Inr colourlessBadge
      else case s of
             [] \<Rightarrow> Inl ''Unexpected end of JSON input''
           | c # cs \<Rightarrow> Inl (''Unexpected token '' @ [CHR 0x27, c, CHR 0x27] @ '', \"'' @ s @
                            ''\" is not valid JSON''))"

definition uriUnreserved :: string where
  "uriUnreserved =
     ''ABCDEFGHIJKLMNOPQRSTUVWXYZabcdefghijklmnopqrstuvwxyz0123456789-_.!~*()'' @ [CHR 0x27]"

definition percentEncoded :: "nat \<Rightarrow> string" where
  "percentEncoded b = [CHR ''%'', ''0123456789ABCDEF'' ! (b div 16), ''0123456789ABCDEF'' ! (b mod 16)]"

definition encodeUnit :: "char \<Rightarrow> string" where
  "encodeUnit c =
     (let n = (of_char c :: nat)
      in if c \<in> set uriUnreserved then [c]
         else if n < 128 then percentEncoded n
         else percentEncoded (192 + n div 64) @ percentEncoded (128 + n mod 64))"

definition v8 :: engine where
  "v8 = \<lparr>JSON_parse = v8_JSON_parse,
         nullishReadMessage = (\<lambda>v k. ''Cannot read properties of '' @
            (case v of None \<Rightarrow> ''undefined'' | Some j \<Rightarrow> ''null'') @
            '' (reading '' @ [CHR 0x27] @ k @ [CHR 0x27] @ '')''),
         notAFunctionMessage = (\<lambda>v k. ''data.choices[0].message.content.'' @ k @
            '' is not a function''),
         ToString = (\<lambda>j. ''[object Object]''),
         greaterThanZero = (\<lambda>j. False),
         encodeURIComponent = (\<lambda>s. Inr (concat (map encodeUnit s)))\<rparr>"

definition octocat :: UserProfile where
  "octocat =
     \<lparr>user = \<lparr>login = ''octocat'', user_id = Finite 583231,
               avatar_url = ''https://avatars.githubusercontent.com/u/583231'',
               user_html_url = ''https://github.com/octocat'', user_name = Some ''The Octocat'',
               bio = None, public_repos = Finite 8, followers = Finite 100\<rparr>,
      repos = []\<rparr>"

text \<open>
  A chat completion that carries \<open>content\<close>: the body as \<open>response.json()\<close> gives
  it, and its text (the examples' contents need no escape but that of the quote).
\<close>

definition chatBody :: "string \<Rightarrow> json" where
  "chatBody content =
     JObj [(''choices'', JArr [JObj [(''message'', JObj [(''content'', JStr content)])]])]"

definition quoted :: "string \<Rightarrow> string" where
  "quoted s = [CHR 0x22] @ concat (map (\<lambda>c. if c = CHR 0x22 then [CHR 0x5C, CHR 0x22] else [c]) s) @
              [CHR 0x22]"

definition chatResponse :: "string \<Rightarrow> response" where
  "chatResponse content =
     \<lparr>status = 200, statusText = ''OK'',
      body_text = Inr (''{\"choices\":[{\"message\":{\"content\":'' @ quoted content @ ''}}]}''),
      body_json = Inr (chatBody content)\<rparr>"

definition chatEnv :: "string \<Rightarrow> badge_env" where
  "chatEnv content =
     \<lparr>OPENROUTER_API_KEY = Some ''sk-or-v1-test'', chat_completion = Inr (chatResponse content)\<rparr>"

definition emptyChoicesEnv :: badge_env where
  "emptyChoicesEnv =
     \<lparr>OPENROUTER_API_KEY = Some ''sk-or-v1-test'',
      chat_completion = Inr \<lparr>status = 200, statusText = ''OK'',
        body_text = Inr ''{\"choices\":[]}'',
        body_json = Inr (JObj [(''choices'', JArr [])])\<rparr>\<rparr>"

text \<open>A completion whose body is the JSON text \<open>null\<close>.\<close>

definition nullBodyResponse :: response where
  "nullBodyResponse =
     \<lparr>status = 200, statusText = ''OK'', body_text = Inr ''null'', body_json = Inr JNull\<rparr>"

definition nullBodyEnv :: badge_env where
  "nullBodyEnv =
     \<lparr>OPENROUTER_API_KEY = Some ''sk-or-v1-test'', chat_completion = Inr nullBodyResponse\<rparr>"

text \<open>Responses of the GitHub API.\<close>

definition rateLimitedResponse :: response where
  "rateLimitedResponse =
     \<lparr>status = 403, statusText = ''Forbidden'',
      body_text = Inr ''{\"message\":\"API rate limit exceeded for 203.0.113.7.\"}'',
      body_json = Inr (JObj [(''message'', JStr ''API rate limit exceeded for 203.0.113.7.'')])\<rparr>"

definition notFoundResponse :: response where
  "notFoundResponse =
     \<lparr>status = 404, statusText = ''Not Found'',
      body_text = Inr ''{\"message\":\"Not Found\"}'',
      body_json = Inr (JObj [(''message'', JStr ''Not Found'')])\<rparr>"

definition noReposResponse :: response where
  "noReposResponse =
     \<lparr>status = 200, statusText = ''OK'', body_text = Inr ''[]'', body_json = Inr (JArr [])\<rparr>"

definition serverErrorResponse :: response where
  "serverErrorResponse =
     \<lparr>status = 500, statusText = ''Internal Server Error'', body_text = Inr [],
      body_json = Inl (SyntaxError ''Unexpected end of JSON input'')\<rparr>"

text \<open>Badges for \<open>generateAvatar\<close>.\<close>

definition muzanBadge :: AnimeBadge where
  "muzanBadge =
     \<lparr>characterName = Some ''Muzan'', anime = Some ''Demon Slayer'',
      reason = Some ''Rewrites everything'', badgeColor = Some ''#8B0000''\<rparr>"

definition namelessBadge :: AnimeBadge where
  "namelessBadge =
     \<lparr>characterName = Some [], anime = Some ''Naruto'',
      reason = Some ''Ships fast'', badgeColor = Some ''#FF7F00''\<rparr>"

definition failingSearch :: lookup_env where
  "failingSearch = \<lparr>character_search = Inr serverErrorResponse\<rparr>"

definition offlineSearch :: lookup_env where
  "offlineSearch = \<lparr>character_search = Inl (TypeError ''Failed to fetch'')\<rparr>"

definition imageEnv :: image_env where
  "imageEnv =
     \<lparr>IMAGEROUTER_API_KEY = Some ''ir-test'',
      image_generation = Inr \<lparr>status = 200, statusText = ''OK'',
        body_text = Inr ''{\"image\":{\"base64\":\"AAAA\"}}'',
        body_json = Inr (JObj [(''image'', JObj [(''base64'', JStr ''AAAA'')])])\<rparr>\<rparr>"

definition twoLinePayload :: string where
  "twoLinePayload = ''{\"a\":1}'' @ [LF] @ ''{\"b\":2}''"

section \<open>Fence stripping\<close>

subsection \<open>The part of the pattern after the group\<close>

lemma backtick_not_space: "\<not> isWhiteSpace (CHR 0x60)"
  by (simp add: isWhiteSpace_def)

lemma tailOk_Cons_space: "isWhiteSpace c \<Longrightarrow> tailOk (c # cs) = tailOk cs"
  unfolding tailOk_def
proof
  assume sp: "isWhiteSpace c" and "\<exists>w. c # cs = w @ ''```'' \<and> (\<forall>c\<in>set w. isWhiteSpace c)"
  then obtain w where w: "c # cs = w @ ''```''" "\<forall>c\<in>set w. isWhiteSpace c" by blast
  from sp w(1) have "w \<noteq> []" using backtick_not_space by auto
  then obtain w' where "w = c # w'" using w(1) by (cases w) auto
  with w show "\<exists>w. cs = w @ ''```'' \<and> (\<forall>c\<in>set w. isWhiteSpace c)" by auto
next
  assume sp: "isWhiteSpace c" and "\<exists>w. cs = w @ ''```'' \<and> (\<forall>c\<in>set w. isWhiteSpace c)"
  then obtain w where w: "cs = w @ ''```''" "\<forall>c\<in>set w. isWhiteSpace c" by blast
  with sp have "c # cs = (c # w) @ ''```'' \<and> (\<forall>c\<in>set (c # w). isWhiteSpace c)" by simp
  then show "\<exists>w. c # cs = w @ ''```'' \<and> (\<forall>c\<in>set w. isWhiteSpace c)" by blast
qed

lemma tailOk_Cons_nonspace: "\<not> isWhiteSpace c \<Longrightarrow> tailOk (c # cs) = (c # cs = ''```'')"
  unfolding tailOk_def
proof
  assume nsp: "\<not> isWhiteSpace c" and "\<exists>w. c # cs = w @ ''```'' \<and> (\<forall>c\<in>set w. isWhiteSpace c)"
  then obtain w where w: "c # cs = w @ ''```''" "\<forall>c\<in>set w. isWhiteSpace c" by blast
  have "w = []"
  proof (cases w)
    case (Cons a w')
    with w nsp show ?thesis by auto
  qed simp
  with w show "c # cs = ''```''" by simp
next
  assume "c # cs = ''```''"
  then have "c # cs = [] @ ''```'' \<and> (\<forall>c\<in>set []. isWhiteSpace c)" by simp
  then show "\<exists>w. c # cs = w @ ''```'' \<and> (\<forall>c\<in>set w. isWhiteSpace c)" by blast
qed

lemma tailOk_Nil: "\<not> tailOk []"
  by (simp add: tailOk_def)

lemma m_lit_end: "m_lit p (m_end g) s = (if s = p then Some g else None)"
proof -
  have "prefix p s \<and> drop (length p) s = [] \<longleftrightarrow> s = p"
    by (auto simp: prefix_def)
  then show ?thesis by (auto simp: m_lit_def m_end_def)
qed

lemma star_space_tail:
  "m_star_space (m_lit ''```'' (m_end g)) r = (if tailOk r then Some g else None)"
proof (induction r)
  case Nil
  then show ?case by (simp add: tailOk_Nil m_lit_def)
next
  case (Cons c cs)
  show ?case
  proof (cases "isWhiteSpace c")
    case True
    then have "c \<noteq> CHR 0x60" using backtick_not_space by auto
    then have "m_lit ''```'' (m_end g) (c # cs) = None" by (simp add: m_lit_end)
    with True Cons show ?thesis by (simp add: tailOk_Cons_space)
  next
    case False
    then show ?thesis
      by (simp add: tailOk_Cons_nonspace m_lit_end)
  qed
qed

lemma fenceTail_eq: "fenceTail g r = (if tailOk r then Some g else None)"
proof (cases "prefix [LF] r")
  case True
  then obtain cs where r: "r = LF # cs" by (cases r) auto
  have "isWhiteSpace LF" by (simp add: isWhiteSpace_def)
  then have "tailOk r = tailOk cs" unfolding r by (rule tailOk_Cons_space)
  then show ?thesis
    by (simp add: fenceTail_def m_opt_lit_def m_lit_def star_space_tail r)
next
  case False
  then show ?thesis
    by (simp add: fenceTail_def m_opt_lit_def m_lit_def star_space_tail)
qed


subsection \<open>The lazy group and the opening fence\<close>

lemma lazy_any_fenceTail_unfold:
  "m_lazy_any fenceTail acc s =
     (if tailOk s then Some (rev acc)
      else case s of [] \<Rightarrow> None | c # cs \<Rightarrow> m_lazy_any fenceTail (c # acc) cs)"
  by (cases s) (simp_all add: fenceTail_eq tailOk_Nil)

lemma not_tailOk_nonspace_last:
  assumes "q \<noteq> []" and "\<not> isWhiteSpace (last q)" and "\<forall>c\<in>set w. isWhiteSpace c"
  shows "\<not> tailOk (q @ w @ ''```'')"
proof
  assume "tailOk (q @ w @ ''```'')"
  then obtain w' where w': "q @ w @ ''```'' = w' @ ''```''" "\<forall>c\<in>set w'. isWhiteSpace c"
    unfolding tailOk_def by blast
  from w'(1) have "q @ w = w'" by simp
  with assms(1) have "last q \<in> set w'" by auto
  with w'(2) assms(2) show False by blast
qed

lemma lazy_any_first:
  assumes "q = [] \<or> \<not> isWhiteSpace (last q)" and "\<forall>c\<in>set w. isWhiteSpace c"
  shows "m_lazy_any fenceTail acc (q @ w @ ''```'') = Some (rev acc @ q)"
  using assms(1)
proof (induction q arbitrary: acc)
  case Nil
  have "tailOk (w @ ''```'')" unfolding tailOk_def using assms(2) by blast
  then show ?case by (subst lazy_any_fenceTail_unfold) simp
next
  case (Cons c q)
  then have nsp: "\<not> isWhiteSpace (last (c # q))" by simp
  have "\<not> tailOk ((c # q) @ w @ ''```'')"
    by (rule not_tailOk_nonspace_last [OF _ nsp assms(2)]) simp
  moreover have "q = [] \<or> \<not> isWhiteSpace (last q)" using nsp by (cases q) auto
  then have "m_lazy_any fenceTail (c # acc) (q @ w @ ''```'') = Some (rev (c # acc) @ q)"
    by (rule Cons.IH)
  ultimately show ?case by (subst lazy_any_fenceTail_unfold) simp
qed

lemma star_space_nonspace: "r = [] \<or> \<not> isWhiteSpace (hd r) \<Longrightarrow> m_star_space k r = k r"
  by (cases r) auto

lemma star_space_skip:
  "\<forall>c\<in>set ws. isWhiteSpace c \<Longrightarrow> m_star_space k r = Some v \<Longrightarrow> m_star_space k (ws @ r) = Some v"
  by (induction ws) auto

lemma last_dropWhile: "dropWhile P xs \<noteq> [] \<Longrightarrow> last (dropWhile P xs) = last xs"
  by (induction xs) (auto split: if_splits)

lemma dropWhile_unchanged: "xs = [] \<or> \<not> P (hd xs) \<Longrightarrow> dropWhile P xs = xs"
  by (cases xs) auto

lemma dropWhile_rev_nonempty: "dropWhile P (rev d) \<noteq> [] \<Longrightarrow> d \<noteq> []"
  by auto

lemma trim_nonempty_dropWhile: "trim p \<noteq> [] \<Longrightarrow> dropWhile isWhiteSpace p \<noteq> []"
  unfolding trim_def by (rule dropWhile_rev_nonempty [of isWhiteSpace]) simp

lemma trim_parts:
  "dropWhile isWhiteSpace p = trim p @ rev (takeWhile isWhiteSpace (rev (dropWhile isWhiteSpace p)))"
proof -
  define d where "d = dropWhile isWhiteSpace p"
  have "rev (takeWhile isWhiteSpace (rev d) @ dropWhile isWhiteSpace (rev d)) = rev (rev d)"
    by (simp only: takeWhile_dropWhile_id)
  then have "rev (dropWhile isWhiteSpace (rev d)) @ rev (takeWhile isWhiteSpace (rev d)) = d"
    by (simp only: rev_append rev_rev_ident)
  then show ?thesis by (simp only: trim_def d_def)
qed

lemma trim_last: "trim p \<noteq> [] \<Longrightarrow> \<not> isWhiteSpace (last (trim p))"
proof -
  assume ne: "trim p \<noteq> []"
  let ?x = "dropWhile isWhiteSpace (rev (dropWhile isWhiteSpace p))"
  from ne have "?x \<noteq> []" by (simp add: trim_def)
  then have "\<not> isWhiteSpace (hd ?x)" by (rule hd_dropWhile)
  moreover have "last (trim p) = hd ?x" using \<open>?x \<noteq> []\<close> by (simp add: trim_def last_rev)
  ultimately show ?thesis by simp
qed

lemma trim_hd: "trim p \<noteq> [] \<Longrightarrow> \<not> isWhiteSpace (hd (trim p))"
proof -
  assume ne: "trim p \<noteq> []"
  let ?d = "dropWhile isWhiteSpace p"
  let ?x = "dropWhile isWhiteSpace (rev ?d)"
  from ne have x: "?x \<noteq> []" by (simp add: trim_def)
  have d: "?d \<noteq> []" using ne by (rule trim_nonempty_dropWhile)
  have "hd (trim p) = last ?x" using x by (simp add: trim_def hd_rev)
  also have "\<dots> = last (rev ?d)" using x by (rule last_dropWhile)
  also have "\<dots> = hd ?d" using d by (simp add: last_rev)
  finally show ?thesis using hd_dropWhile [OF d] by simp
qed

lemma trim_idem: "trim (trim p) = trim p"
proof (cases "trim p = []")
  case True
  have "trim [] = []" by (simp add: trim_def)
  then show ?thesis by (simp only: True)
next
  case False
  have 1: "dropWhile isWhiteSpace (trim p) = trim p"
    using trim_hd [OF False] by (simp add: dropWhile_unchanged)
  have "hd (rev (trim p)) = last (trim p)" using False by (simp add: hd_rev)
  then have 2: "dropWhile isWhiteSpace (rev (trim p)) = rev (trim p)"
    using trim_last [OF False] by (simp add: dropWhile_unchanged)
  show ?thesis by (subst (1) trim_def) (simp add: 1 2)
qed

lemma fenceRegex_fenced:
  assumes tag: "tag = [] \<or> tag = ''json''" and ne: "trim p \<noteq> []"
  shows "fenceRegex (fenced tag p) = Some (trim p)"
proof -
  define d where "d = dropWhile isWhiteSpace p"
  define lead where "lead = takeWhile isWhiteSpace p"
  define tr where "tr = rev (takeWhile isWhiteSpace (rev d))"
  define rest where "rest = d @ [LF] @ ''```''"
  let ?K4 = "m_lazy_any fenceTail []"
  let ?K3 = "m_opt_lit [LF] ?K4"
  let ?K2 = "m_star_space ?K3"
  have p: "p = lead @ d" by (simp add: lead_def d_def)
  have d: "d \<noteq> []" unfolding d_def using ne by (rule trim_nonempty_dropWhile)
  have hd_d: "\<not> isWhiteSpace (hd d)" using d unfolding d_def by (rule hd_dropWhile)
  have sp_LF: "isWhiteSpace LF" by (simp add: isWhiteSpace_def)
  have lead: "\<forall>c\<in>set ([LF] @ lead). isWhiteSpace c"
    using sp_LF by (auto simp: lead_def dest: set_takeWhileD)
  have tr: "\<forall>c\<in>set (tr @ [LF]). isWhiteSpace c"
    using sp_LF by (auto simp: tr_def dest: set_takeWhileD)
  have dsplit: "d = trim p @ tr" unfolding d_def tr_def by (rule trim_parts)
  have "?K4 (trim p @ (tr @ [LF]) @ ''```'') = Some (rev [] @ trim p)"
    by (rule lazy_any_first [OF _ tr]) (use trim_last [OF ne] in simp)
  then have K4: "?K4 rest = Some (trim p)" by (simp add: rest_def dsplit)
  obtain c cs where dc: "d = c # cs" using d by (cases d) auto
  with hd_d sp_LF have "c \<noteq> LF" by auto
  then have "\<not> prefix [LF] rest" by (simp add: rest_def dc)
  then have K3: "?K3 rest = Some (trim p)" using K4 by (simp add: m_opt_lit_def m_lit_def)
  have "m_star_space ?K3 rest = ?K3 rest"
    by (rule star_space_nonspace) (use hd_d dc in \<open>simp add: rest_def\<close>)
  with K3 have "m_star_space ?K3 rest = Some (trim p)" by simp
  with lead have "?K2 (([LF] @ lead) @ rest) = Some (trim p)" by (rule star_space_skip)
  then have K2: "?K2 ([LF] @ p @ [LF] @ ''```'') = Some (trim p)" by (simp add: p rest_def)
  have "m_opt_lit ''json'' ?K2 (tag @ [LF] @ p @ [LF] @ ''```'') = Some (trim p)"
    using tag K2 by (auto simp: m_opt_lit_def m_lit_def)
  then show ?thesis
    by (simp add: fenceRegex_def fenced_def m_lit_def)
qed

lemma stripFence_fenced:
  assumes "tag = [] \<or> tag = ''json''" and "trim p \<noteq> []"
  shows "stripFence (fenced tag p) = trim p"
  using fenceRegex_fenced [OF assms] assms(2) by (simp add: stripFence_def trim_idem)


subsection \<open>A match needs both fences\<close>

lemma fenceTail_suffix: "fenceTail g r = Some v \<Longrightarrow> suffix ''```'' r"
  by (auto simp: fenceTail_eq tailOk_def suffix_def split: if_splits)

lemma lazy_any_suffix:
  "m_lazy_any fenceTail acc s = Some v \<Longrightarrow> suffix ''```'' s"
proof (induction s arbitrary: acc)
  case Nil
  then show ?case by (auto dest: fenceTail_suffix)
next
  case (Cons c cs)
  show ?case
  proof (cases "fenceTail (rev acc) (c # cs)")
    case None
    with Cons.prems have "m_lazy_any fenceTail (c # acc) cs = Some v" by simp
    then have "suffix ''```'' cs" by (rule Cons.IH)
    then show ?thesis by (rule suffix_ConsI)
  next
    case (Some r)
    then show ?thesis by (rule fenceTail_suffix)
  qed
qed

lemma m_lit_suffix:
  assumes "\<And>r. k r = Some v \<Longrightarrow> suffix x r" and "m_lit p k s = Some v"
  shows "suffix x s"
proof -
  from assms(2) have "k (drop (length p) s) = Some v" by (simp add: m_lit_def split: if_splits)
  then have "suffix x (drop (length p) s)" by (rule assms(1))
  then show ?thesis using suffix_drop suffix_order.trans by blast
qed

lemma m_opt_lit_suffix:
  assumes "\<And>r. k r = Some v \<Longrightarrow> suffix x r" and "m_opt_lit p k s = Some v"
  shows "suffix x s"
proof (cases "m_lit p k s")
  case None
  with assms(2) have "k s = Some v" by (simp add: m_opt_lit_def)
  then show ?thesis by (rule assms(1))
next
  case (Some r)
  with assms(2) have "m_lit p k s = Some v" by (simp add: m_opt_lit_def)
  with assms(1) show ?thesis by (rule m_lit_suffix)
qed

lemma m_star_space_suffix:
  assumes "\<And>r. k r = Some v \<Longrightarrow> suffix x r" and "m_star_space k s = Some v"
  shows "suffix x s"
  using assms(2)
proof (induction s)
  case Nil
  then have "k [] = Some v" by simp
  then show ?case by (rule assms(1))
next
  case (Cons c cs)
  show ?case
  proof (cases "isWhiteSpace c \<and> m_star_space k cs = Some v")
    case True
    then have "suffix x cs" using Cons.IH by simp
    then show ?thesis by (rule suffix_ConsI)
  next
    case False
    with Cons.prems have "k (c # cs) = Some v" by (auto split: if_splits option.splits)
    then show ?thesis by (rule assms(1))
  qed
qed

lemma fenceRegex_Some_shape:
  assumes "fenceRegex t = Some g"
  shows "prefix ''```'' t \<and> suffix ''```'' t"
proof
  show "prefix ''```'' t"
    using assms by (simp add: fenceRegex_def m_lit_def split: if_splits)
  show "suffix ''```'' t"
    using assms unfolding fenceRegex_def
    by (elim m_lit_suffix [rotated] m_opt_lit_suffix [rotated] m_star_space_suffix [rotated]
        lazy_any_suffix)
qed

lemma stripFence_unfenced:
  "\<not> prefix ''```'' t \<or> \<not> suffix ''```'' t \<Longrightarrow> stripFence t = t"
  using fenceRegex_Some_shape [of t] by (cases "fenceRegex t") (auto simp: stripFence_def)

lemma trim_stripFence: "trim t = t \<Longrightarrow> trim (stripFence t) = stripFence t"
  by (simp add: stripFence_def trim_idem split: option.splits)

lemma trim_jsonStrOf: "trim (jsonStrOf t) = jsonStrOf t"
  unfolding jsonStrOf_def by (rule trim_stripFence) (rule trim_idem)

lemma trim_unchanged:
  assumes "s \<noteq> []" "\<not> isWhiteSpace (hd s)" "\<not> isWhiteSpace (last s)"
  shows "trim s = s"
proof -
  have 1: "dropWhile isWhiteSpace s = s" using assms(2) by (simp add: dropWhile_unchanged)
  have "hd (rev s) = last s" using assms(1) by (simp add: hd_rev)
  then have 2: "dropWhile isWhiteSpace (rev s) = rev s"
    using assms(3) by (simp add: dropWhile_unchanged)
  show ?thesis by (simp add: trim_def 1 2)
qed

lemma trim_fenced: "trim (fenced tag p) = fenced tag p"
  by (rule trim_unchanged) (simp_all add: fenced_def backtick_not_space)

subsection \<open>A payload of white space\<close>

lemma trim_empty_all_space:
  assumes "trim p = []"
  shows "\<forall>c\<in>set p. isWhiteSpace c"
proof -
  define d where "d = dropWhile isWhiteSpace p"
  from assms have "dropWhile isWhiteSpace (rev d) = []" by (simp add: trim_def d_def)
  then have all: "\<forall>c\<in>set d. isWhiteSpace c" by (simp add: dropWhile_eq_Nil_conv)
  have "d = []"
  proof (rule ccontr)
    assume ne: "d \<noteq> []"
    then have "\<not> isWhiteSpace (hd d)" unfolding d_def by (rule hd_dropWhile)
    moreover have "hd d \<in> set d" using ne by simp
    ultimately show False using all by blast
  qed
  then show ?thesis by (simp add: d_def dropWhile_eq_Nil_conv)
qed

lemma fenceRegex_blank:
  assumes tag: "tag = [] \<or> tag = ''json''" and blank: "\<forall>c\<in>set p. isWhiteSpace c"
  shows "fenceRegex (fenced tag p) = Some []"
proof -
  let ?K4 = "m_lazy_any fenceTail []"
  let ?K3 = "m_opt_lit [LF] ?K4"
  let ?K2 = "m_star_space ?K3"
  have sp_LF: "isWhiteSpace LF" by (simp add: isWhiteSpace_def)
  have "?K4 ([] @ [] @ ''```'') = Some (rev [] @ [])"
    by (rule lazy_any_first) simp_all
  then have K4: "?K4 ''```'' = Some []" by simp
  then have K3: "?K3 ''```'' = Some []" by (simp add: m_opt_lit_def m_lit_def)
  have "m_star_space ?K3 ''```'' = ?K3 ''```''"
    by (rule star_space_nonspace) (simp add: backtick_not_space)
  with K3 have "m_star_space ?K3 ''```'' = Some []" by simp
  moreover have "\<forall>c\<in>set ([LF] @ p @ [LF]). isWhiteSpace c" using blank sp_LF by auto
  ultimately have "?K2 (([LF] @ p @ [LF]) @ ''```'') = Some []" by (intro star_space_skip)
  then have K2: "?K2 ([LF] @ p @ [LF] @ ''```'') = Some []" by simp
  have "m_opt_lit ''json'' ?K2 (tag @ [LF] @ p @ [LF] @ ''```'') = Some []"
    using tag K2 by (auto simp: m_opt_lit_def m_lit_def)
  then show ?thesis by (simp add: fenceRegex_def fenced_def m_lit_def)
qed

lemma stripFence_blank:
  assumes "tag = [] \<or> tag = ''json''" and "trim p = []"
  shows "stripFence (fenced tag p) = fenced tag p"
  using fenceRegex_blank [OF assms(1) trim_empty_all_space [OF assms(2)]]
  by (simp add: stripFence_def)

text \<open>
  \<open>C2\<close>, as amended. Take the text made of an opening fence (bare or tagged
  \<open>json\<close>), a line feed, a payload \<open>p\<close>, a line feed and a closing fence. If \<open>p\<close>
  has a character other than white space, the text unwraps to \<open>p\<close> without its
  leading and trailing white space, whether or not \<open>p\<close> has line breaks inside; so it
  unwraps to \<open>p\<close> exactly when \<open>p\<close> neither starts nor ends with white space. If
  \<open>p\<close> is empty or all white space, the text is left as it is. A text whose trimmed
  form does not both start and end with three backquotes is used as trimmed, with no
  other change. Unwrapping a second time changes nothing whenever the first result
  does not itself start with a fence.
\<close>

theorem fence_stripping:
  "((tag = [] \<or> tag = ''json'') \<and> trim p \<noteq> [] \<longrightarrow> jsonStrOf (fenced tag p) = trim p) \<and>
   ((tag = [] \<or> tag = ''json'') \<and> trim p = [] \<longrightarrow> jsonStrOf (fenced tag p) = fenced tag p) \<and>
   (\<not> prefix ''```'' (trim t) \<or> \<not> suffix ''```'' (trim t) \<longrightarrow> jsonStrOf t = trim t) \<and>
   (\<not> prefix ''```'' (jsonStrOf t) \<longrightarrow> jsonStrOf (jsonStrOf t) = jsonStrOf t)"
proof (intro conjI impI)
  assume "(tag = [] \<or> tag = ''json'') \<and> trim p \<noteq> []"
  then show "jsonStrOf (fenced tag p) = trim p"
    by (simp add: jsonStrOf_def trim_fenced stripFence_fenced)
next
  assume "(tag = [] \<or> tag = ''json'') \<and> trim p = []"
  then show "jsonStrOf (fenced tag p) = fenced tag p"
    by (simp add: jsonStrOf_def trim_fenced stripFence_blank)
next
  assume "\<not> prefix ''```'' (trim t) \<or> \<not> suffix ''```'' (trim t)"
  then show "jsonStrOf t = trim t"
    unfolding jsonStrOf_def by (rule stripFence_unfenced)
next
  assume "\<not> prefix ''```'' (jsonStrOf t)"
  then have "stripFence (jsonStrOf t) = jsonStrOf t" by (simp add: stripFence_unfenced)
  then show "jsonStrOf (jsonStrOf t) = jsonStrOf t"
    by (subst (1) jsonStrOf_def) (simp add: trim_jsonStrOf)
qed

text \<open>
  The theorem at the two-line payload of the specification, at a payload of one space,
  and at a badge text without a fence.
\<close>

theorem fence_stripping_witness:
  "trim twoLinePayload \<noteq> [] \<and>
   jsonStrOf (fenced ''json'' twoLinePayload) = twoLinePayload \<and>
   trim '' '' = [] \<and>
   jsonStrOf (fenced [] '' '') = fenced [] '' '' \<and>
   \<not> prefix ''```'' (trim orangeBadgeText) \<and>
   jsonStrOf orangeBadgeText = orangeBadgeText \<and>
   \<not> prefix ''```'' (jsonStrOf orangeBadgeText) \<and>
   jsonStrOf (jsonStrOf orangeBadgeText) = jsonStrOf orangeBadgeText"
proof -
  have t1: "trim twoLinePayload = twoLinePayload"
    by (simp add: trim_def twoLinePayload_def isWhiteSpace_def)
  have t2: "trim orangeBadgeText = orangeBadgeText"
    by (simp add: trim_def orangeBadgeText_def isWhiteSpace_def)
  have n1: "twoLinePayload \<noteq> []" by (simp add: twoLinePayload_def)
  have n2: "\<not> prefix ''```'' orangeBadgeText" by (simp add: orangeBadgeText_def)
  have a: "jsonStrOf (fenced ''json'' twoLinePayload) = twoLinePayload"
    using fence_stripping [of "''json''" twoLinePayload orangeBadgeText] t1 n1 by simp
  have b: "jsonStrOf orangeBadgeText = orangeBadgeText"
    using fence_stripping [of "''json''" twoLinePayload orangeBadgeText] t2 n2 by simp
  have c: "jsonStrOf (jsonStrOf orangeBadgeText) = jsonStrOf orangeBadgeText"
    using fence_stripping [of "''json''" twoLinePayload orangeBadgeText] b n2 by simp
  have t3: "trim '' '' = []" by (simp add: trim_def isWhiteSpace_def)
  have d: "jsonStrOf (fenced [] '' '') = fenced [] '' ''"
    using fence_stripping [of "[]" "'' ''" orangeBadgeText] t3 by simp
  show ?thesis using t1 t2 t3 n1 n2 a b c d by simp
qed

text \<open>
  \<open>C2\<close> as stated fails. A payload that starts with a space loses it, and an
  empty payload leaves the fenced text as it is; a text between fences on one line,
  which has none of the two line feeds, is unwrapped all the same; a payload that is
  itself a fenced text is unwrapped once more by a second application, so unwrapping
  is not idempotent.
\<close>

theorem fence_stripping_counterexample:
  "jsonStrOf (fenced ''json'' '' x'') = ''x'' \<and>
   jsonStrOf (fenced [] []) = fenced [] [] \<and>
   jsonStrOf ''```x```'' = ''x'' \<and>
   jsonStrOf (fenced [] (fenced [] ''a'')) = fenced [] ''a'' \<and>
   jsonStrOf (jsonStrOf (fenced [] (fenced [] ''a''))) = ''a''"
  by (simp add: jsonStrOf_def stripFence_def fenceRegex_def fenceTail_def m_lit_def m_opt_lit_def
      m_end_def trim_def isWhiteSpace_def fenced_def)

section \<open>Steps that may throw\<close>

lemma andThen_simps [simp]: "andThen (Inl e) f = Inl e" "andThen (Inr x) f = f x"
  by (simp_all add: andThen_def)

lemma andThen_Inr: "andThen r f = Inr y \<longleftrightarrow> (\<exists>x. r = Inr x \<and> f x = Inr y)"
  by (cases r) simp_all

lemma readProp_nonnull: "j \<noteq> JNull \<Longrightarrow> readProp eng (Some j) k = Inr (ownProp j k)"
  by (cases j) simp_all

lemma truthyV_readProp: "truthyV v \<Longrightarrow> readProp eng v k = Inr (readPropOpt v k)"
proof -
  assume "truthyV v"
  then obtain j where "v = Some j" "truthy j" by (cases v) (auto simp: truthyV_def)
  then show ?thesis by (cases j) simp_all
qed

lemma nonnull_readProp: "j \<noteq> JNull \<Longrightarrow> readProp eng (Some j) k = Inr (readPropOpt (Some j) k)"
  by (cases j) simp_all

section \<open>\<open>getAnimeBadge\<close>\<close>

subsection \<open>What a returned badge holds\<close>

lemma parseBadge_Inr:
  assumes "parseBadge eng jsonStr = Inr badge"
  shows "requiredFieldsPresent badge"
proof (cases "JSON_parse eng jsonStr")
  case (Inl m)
  with assms show ?thesis by (simp add: parseBadge_def)
next
  case (Inr parsedData)
  show ?thesis
  proof (cases "parsedData = JNull")
    case True
    with Inr assms show ?thesis by (simp add: parseBadge_def)
  next
    case False
    with Inr assms show ?thesis
      by (simp add: parseBadge_def readProp_nonnull requiredFieldsPresent_def split: if_splits)
  qed
qed

lemma getAnimeBadge_try_Inr:
  assumes "getAnimeBadge_try eng env profileData = Inr badge"
  shows "\<exists>jsonStr. parseBadge eng jsonStr = Inr badge"
  using assms unfolding getAnimeBadge_try_def
  by (auto simp: andThen_Inr split: if_splits)

text \<open>
  \<open>C1\<close>, as amended. For every profile, engine and outcome of the request,
  \<open>getAnimeBadge\<close> either fails with an error or returns the parsed value, and a
  value it returns has all four fields \<open>characterName\<close>, \<open>anime\<close>, \<open>reason\<close> and
  \<open>badgeColor\<close> present and truthy (a string field is not empty): no partially
  populated badge is returned. Nothing is promised about the form of \<open>badgeColor\<close>.
\<close>

theorem getAnimeBadge_complete_or_error:
  "getAnimeBadge eng env profileData = Inr badge \<Longrightarrow> requiredFieldsPresent badge"
proof -
  assume "getAnimeBadge eng env profileData = Inr badge"
  then have "getAnimeBadge_try eng env profileData = Inr badge"
    by (simp add: getAnimeBadge_def split: if_splits sum.splits)
  then obtain jsonStr where "parseBadge eng jsonStr = Inr badge"
    using getAnimeBadge_try_Inr by blast
  then show ?thesis by (rule parseBadge_Inr)
qed

text \<open>
  The definitions of the model and of the example engine that the examples of
  \<open>getAnimeBadge\<close> unfold.
\<close>

lemmas badge_model_defs =
  getAnimeBadge_def getAnimeBadge_try_def getAnimeBadge_catch_def messageContent_def
  parseBadge_def getOpenRouterKey_def truthyField_def templated_def truthyV_def ok_def
  jsonStrOf_def stripFence_def fenceRegex_def m_lit_def trim_def isWhiteSpace_def
  Error_def SyntaxError_def TypeError_def sanitizedMessage_def decimal.simps digit_def

lemmas v8_defs =
  v8_def v8_JSON_parse_def orangeBadgeText_def orangeBadge_def redBadgeText_def redBadge_def
  colourlessBadgeText_def colourlessBadge_def

text \<open>The theorem at a completion that carries a complete badge.\<close>

theorem getAnimeBadge_complete_or_error_witness:
  "getAnimeBadge v8 (chatEnv orangeBadgeText) octocat = Inr orangeBadge \<and>
   requiredFieldsPresent orangeBadge"
proof -
  have "getAnimeBadge v8 (chatEnv orangeBadgeText) octocat = Inr orangeBadge"
    by (simp add: badge_model_defs v8_defs chatEnv_def chatResponse_def chatBody_def octocat_def)
  with getAnimeBadge_complete_or_error [of v8 "chatEnv orangeBadgeText" octocat orangeBadge]
  show ?thesis by simp
qed

text \<open>
  \<open>C1\<close> as stated fails: a completion whose badge has the colour \<open>red\<close> is
  returned, and \<open>red\<close> does not match \<open>^#[0-9A-Fa-f]{6}$\<close>. No line of the source
  tests the colour.
\<close>

theorem getAnimeBadge_hex_counterexample:
  "getAnimeBadge v8 (chatEnv redBadgeText) octocat = Inr redBadge \<and>
   ownProp redBadge ''badgeColor'' = Some (JStr ''red'') \<and>
   \<not> matchesHexColor ''red''"
  by (simp add: badge_model_defs v8_defs chatEnv_def chatResponse_def chatBody_def octocat_def
      matchesHexColor_def)

subsection \<open>Missing fields\<close>

lemma catch_missing_fields:
  "getAnimeBadge_catch (Error ''AI response is missing required fields.'') =
     Error ''Failed to get anime badge from OpenRouter: AI response is missing required fields.''"
  by (simp add: getAnimeBadge_catch_def Error_def sanitizedMessage_def)

lemma catch_invalid_structure:
  "getAnimeBadge_catch (Error ''Invalid response structure from OpenRouter API'') =
     Error ''Failed to get anime badge from OpenRouter: Invalid response structure from OpenRouter API''"
  by (simp add: getAnimeBadge_catch_def Error_def sanitizedMessage_def)

lemma parseBadge_missing:
  assumes "JSON_parse eng jsonStr = Inr parsedData" and "parsedData \<noteq> JNull"
    and "\<not> requiredFieldsPresent parsedData"
  shows "parseBadge eng jsonStr = Inl (Error ''AI response is missing required fields.'')"
  using assms by (auto simp: parseBadge_def readProp_nonnull requiredFieldsPresent_def)

lemma getAnimeBadge_try_text:
  assumes "truthyField (OPENROUTER_API_KEY env)"
    and "chat_completion env = Inr response" and "ok response"
    and "body_json response = Inr data"
    and "messageContent eng data = Inr (Some (JStr content))"
  shows "getAnimeBadge_try eng env profileData = parseBadge eng (jsonStrOf content)"
  using assms by (simp add: getAnimeBadge_try_def getOpenRouterKey_def)

text \<open>
  \<open>C5\<close>, as amended. Whenever the generated text parses as a JSON value other than
  \<open>null\<close> in which one or more of the four required fields is absent or falsy,
  \<open>getAnimeBadge\<close> fails with the error whose message is the fixed text
  \<open>Failed to get anime badge from OpenRouter: AI response is missing required fields.\<close>
  The message is the same whichever fields are missing; it names none of them.
\<close>

theorem missing_fields_error:
  assumes "login (user profileData) \<noteq> []"
    and "truthyField (OPENROUTER_API_KEY env)"
    and "chat_completion env = Inr response" and "ok response"
    and "body_json response = Inr data"
    and "messageContent eng data = Inr (Some (JStr content))"
    and "JSON_parse eng (jsonStrOf content) = Inr parsedData"
    and "parsedData \<noteq> JNull"
    and "\<not> requiredFieldsPresent parsedData"
  shows "getAnimeBadge eng env profileData =
     Inl (Error ''Failed to get anime badge from OpenRouter: AI response is missing required fields.'')"
proof -
  have "getAnimeBadge_try eng env profileData = parseBadge eng (jsonStrOf content)"
    using assms(2-6) by (rule getAnimeBadge_try_text)
  also have "\<dots> = Inl (Error ''AI response is missing required fields.'')"
    using assms(7-9) by (rule parseBadge_missing)
  finally show ?thesis using assms(1) by (simp add: getAnimeBadge_def catch_missing_fields)
qed

text \<open>The theorem at a completion whose badge lacks \<open>badgeColor\<close> only.\<close>

theorem missing_fields_error_witness:
  "\<not> requiredFieldsPresent colourlessBadge \<and>
   ownProp colourlessBadge ''badgeColor'' = None \<and>
   getAnimeBadge v8 (chatEnv colourlessBadgeText) octocat =
     Inl (Error ''Failed to get anime badge from OpenRouter: AI response is missing required fields.'')"
proof -
  have 1: "login (user octocat) \<noteq> []" by (simp add: octocat_def)
  have 2: "truthyField (OPENROUTER_API_KEY (chatEnv colourlessBadgeText))"
    by (simp add: chatEnv_def truthyField_def)
  have 3: "chat_completion (chatEnv colourlessBadgeText) = Inr (chatResponse colourlessBadgeText)"
    by (simp add: chatEnv_def)
  have 4: "ok (chatResponse colourlessBadgeText)" by (simp add: chatResponse_def ok_def)
  have 5: "body_json (chatResponse colourlessBadgeText) = Inr (chatBody colourlessBadgeText)"
    by (simp add: chatResponse_def)
  have 6: "messageContent v8 (chatBody colourlessBadgeText) = Inr (Some (JStr colourlessBadgeText))"
    by (simp add: messageContent_def chatBody_def truthyV_def decimal.simps digit_def)
  have 7: "JSON_parse v8 (jsonStrOf colourlessBadgeText) = Inr colourlessBadge"
    by (simp add: badge_model_defs v8_defs chatEnv_def chatResponse_def chatBody_def octocat_def)
  have 8: "colourlessBadge \<noteq> JNull" by (simp add: colourlessBadge_def)
  have 9: "\<not> requiredFieldsPresent colourlessBadge"
    by (simp add: requiredFieldsPresent_def colourlessBadge_def truthyV_def)
  have 10: "ownProp colourlessBadge ''badgeColor'' = None" by (simp add: colourlessBadge_def)
  from missing_fields_error [OF 1 2 3 4 5 6 7 8 9] 9 10 show ?thesis by simp
qed

text \<open>
  \<open>C5\<close> as stated fails: for the badge that lacks \<open>badgeColor\<close> only, the message
  of the error does not contain \<open>badgeColor\<close>.
\<close>

theorem missing_fields_error_counterexample:
  "getAnimeBadge v8 (chatEnv colourlessBadgeText) octocat =
     Inl (Error ''Failed to get anime badge from OpenRouter: AI response is missing required fields.'') \<and>
   \<not> str_includes
       ''Failed to get anime badge from OpenRouter: AI response is missing required fields.''
       ''badgeColor''"
  by (simp add: badge_model_defs v8_defs chatEnv_def chatResponse_def chatBody_def octocat_def)

subsection \<open>Parse failures\<close>

text \<open>
  A parse failure reaches the \<open>catch\<close> block as a \<open>SyntaxError\<close> with the
  engine's message, and the block gives the generic wording only when that message
  contains \<open>JSON.parse\<close>.
\<close>

lemma parse_failure_classification:
  assumes "login (user profileData) \<noteq> []"
    and "truthyField (OPENROUTER_API_KEY env)"
    and "chat_completion env = Inr response" and "ok response"
    and "body_json response = Inr data"
    and "messageContent eng data = Inr (Some (JStr content))"
    and "JSON_parse eng (jsonStrOf content) = Inl m"
  shows "getAnimeBadge eng env profileData = Inl (getAnimeBadge_catch (SyntaxError m))"
proof -
  have "getAnimeBadge_try eng env profileData = parseBadge eng (jsonStrOf content)"
    using assms(2-6) by (rule getAnimeBadge_try_text)
  also have "\<dots> = Inl (SyntaxError m)" using assms(7) by (simp add: parseBadge_def)
  finally show ?thesis using assms(1) by (simp add: getAnimeBadge_def)
qed

lemma catch_parse_failure_with_marker:
  "str_includes m ''JSON.parse'' \<Longrightarrow>
   getAnimeBadge_catch (SyntaxError m) =
     Error ''The AI returned an invalid response. Please try again.''"
  by (simp add: getAnimeBadge_catch_def SyntaxError_def)

text \<open>
  \<open>C6\<close>, on the code. The completion carries the text \<open>Invalid JSON content\<close>, the
  text of the repository's own test of invalid JSON. V8's \<open>JSON.parse\<close> rejects it
  with a message that does not contain \<open>JSON.parse\<close>, so \<open>getAnimeBadge\<close> fails with
  the wrapper error that carries the parser's message, not with the generic
  invalid-response error.
\<close>

theorem parse_failure_leaks_parser_message:
  "JSON_parse v8 (jsonStrOf ''Invalid JSON content'') =
     Inl (''Unexpected token '' @ [CHR 0x27] @ ''I'' @ [CHR 0x27] @
          '', \"Invalid JSON content\" is not valid JSON'') \<and>
   getAnimeBadge v8 (chatEnv ''Invalid JSON content'') octocat =
     Inl (Error (''Failed to get anime badge from OpenRouter: Unexpected token '' @ [CHR 0x27] @
                 ''I'' @ [CHR 0x27] @ '', \"Invalid JSON content\" is not valid JSON''))"
  by (simp add: badge_model_defs v8_defs chatEnv_def chatResponse_def chatBody_def octocat_def)

subsection \<open>The structure of the response\<close>

lemma messageContent_nonnull:
  assumes "data \<noteq> JNull"
  shows "messageContent eng data =
     (if responseStructurePresent data
      then Inr (readPropOpt (readPropOpt (readPropOpt (readPropOpt (Some data) ''choices'') ''0'')
                  ''message'') ''content'')
      else Inl (Error ''Invalid response structure from OpenRouter API''))"
  using assms
  by (simp add: messageContent_def responseStructurePresent_def nonnull_readProp truthyV_readProp)

lemma messageContent_null: "messageContent eng JNull = Inl (TypeError (nullishReadMessage eng (Some JNull) ''choices''))"
  by (simp add: messageContent_def)

text \<open>
  The guard of lines 121 to 123 on a body that has properties to read, that is on
  every JSON value but the literal \<open>null\<close>: when \<open>choices\<close>, \<open>choices[0]\<close> or
  \<open>choices[0].message\<close> is missing or falsy, \<open>getAnimeBadge\<close> fails with the
  invalid-response-structure message inside the badge-failure wrapper; and
  \<open>choices[0].message.content\<close> is read only for a body that passed the check.
\<close>

theorem invalid_structure_error:
  "(login (user profileData) \<noteq> [] \<and> truthyField (OPENROUTER_API_KEY env) \<and>
    chat_completion env = Inr response \<and> ok response \<and> body_json response = Inr data \<and>
    data \<noteq> JNull \<and> \<not> responseStructurePresent data \<longrightarrow>
    getAnimeBadge eng env profileData =
      Inl (Error ''Failed to get anime badge from OpenRouter: Invalid response structure from OpenRouter API'')) \<and>
   (messageContent eng body = Inr content \<longrightarrow> responseStructurePresent body)"
proof (intro conjI impI)
  assume h: "login (user profileData) \<noteq> [] \<and> truthyField (OPENROUTER_API_KEY env) \<and>
    chat_completion env = Inr response \<and> ok response \<and> body_json response = Inr data \<and>
    data \<noteq> JNull \<and> \<not> responseStructurePresent data"
  then have "messageContent eng data = Inl (Error ''Invalid response structure from OpenRouter API'')"
    by (simp add: messageContent_nonnull)
  with h have "getAnimeBadge_try eng env profileData =
      Inl (Error ''Invalid response structure from OpenRouter API'')"
    by (simp add: getAnimeBadge_try_def getOpenRouterKey_def)
  with h show "getAnimeBadge eng env profileData =
      Inl (Error ''Failed to get anime badge from OpenRouter: Invalid response structure from OpenRouter API'')"
    by (simp add: getAnimeBadge_def catch_invalid_structure)
next
  assume c: "messageContent eng body = Inr content"
  show "responseStructurePresent body"
  proof (cases "body = JNull")
    case True
    with c show ?thesis by (simp add: messageContent_null)
  next
    case False
    with c show ?thesis by (simp add: messageContent_nonnull split: if_splits)
  qed
qed

text \<open>
  The theorem at a body whose \<open>choices\<close> is empty, and at a body that carries a
  content.
\<close>

theorem invalid_structure_error_witness:
  "\<not> responseStructurePresent (JObj [(''choices'', JArr [])]) \<and>
   getAnimeBadge v8 emptyChoicesEnv octocat =
     Inl (Error ''Failed to get anime badge from OpenRouter: Invalid response structure from OpenRouter API'') \<and>
   messageContent v8 (chatBody orangeBadgeText) = Inr (Some (JStr orangeBadgeText)) \<and>
   responseStructurePresent (chatBody orangeBadgeText)"
proof -
  let ?data = "JObj [(''choices'', JArr [])]"
  let ?response = "\<lparr>status = 200, statusText = ''OK'', body_text = Inr ''{\"choices\":[]}'',
        body_json = Inr ?data\<rparr>"
  have h: "login (user octocat) \<noteq> [] \<and> truthyField (OPENROUTER_API_KEY emptyChoicesEnv) \<and>
    chat_completion emptyChoicesEnv = Inr ?response \<and> ok ?response \<and>
    body_json ?response = Inr ?data \<and> ?data \<noteq> JNull \<and> \<not> responseStructurePresent ?data"
    by (simp add: octocat_def emptyChoicesEnv_def truthyField_def ok_def
        responseStructurePresent_def truthyV_def decimal.simps digit_def)
  have m: "messageContent v8 (chatBody orangeBadgeText) = Inr (Some (JStr orangeBadgeText))"
    by (simp add: messageContent_def chatBody_def truthyV_def decimal.simps digit_def)
  from invalid_structure_error [of octocat emptyChoicesEnv ?response ?data v8
      "chatBody orangeBadgeText" "Some (JStr orangeBadgeText)"] h m
  show ?thesis by simp
qed

text \<open>
  The body \<open>null\<close> has no properties: the guard's own read of \<open>data.choices\<close>
  throws a \<open>TypeError\<close>, which the \<open>catch\<close> block receives like any other error,
  whatever the engine.
\<close>

lemma null_body_error:
  assumes "login (user profileData) \<noteq> []" and "truthyField (OPENROUTER_API_KEY env)"
    and "chat_completion env = Inr response" and "ok response"
    and "body_json response = Inr JNull"
  shows "getAnimeBadge eng env profileData =
     Inl (getAnimeBadge_catch (TypeError (nullishReadMessage eng (Some JNull) ''choices'')))"
  using assms
  by (simp add: getAnimeBadge_def getAnimeBadge_try_def getOpenRouterKey_def messageContent_null)

text \<open>
  \<open>C9\<close>, on the code. The endpoint answers with success and the JSON body \<open>null\<close>,
  a body in which \<open>choices\<close> is missing. The guard does not test the body itself
  before it reads \<open>data.choices\<close>: that read is the unguarded access, it throws, and
  \<open>getAnimeBadge\<close> fails with the wrapper around V8's \<open>TypeError\<close> message, not
  around the invalid-response-structure message.
\<close>

theorem null_body_unguarded_read:
  "chat_completion nullBodyEnv = Inr nullBodyResponse \<and> ok nullBodyResponse \<and>
   body_json nullBodyResponse = Inr JNull \<and>
   \<not> responseStructurePresent JNull \<and>
   getAnimeBadge v8 nullBodyEnv octocat =
     Inl (Error (''Failed to get anime badge from OpenRouter: Cannot read properties of null (reading '' @
                 [CHR 0x27] @ ''choices'' @ [CHR 0x27] @ '')''))"
  by (simp add: badge_model_defs v8_def nullBodyEnv_def nullBodyResponse_def octocat_def
      responseStructurePresent_def)

section \<open>\<open>generateAvatar\<close>, image generation\<close>

text \<open>
  \<open>C10\<close>. The image-generation variant rejects every badge in which
  \<open>characterName\<close>, \<open>anime\<close> or \<open>badgeColor\<close> is absent or empty: it fails with
  \<open>Invalid badge data provided\<close> and has issued no request.
\<close>

theorem generateAvatar_rejects_incomplete_badge:
  "\<not> truthyField (characterName badge) \<or> \<not> truthyField (anime badge) \<or>
   \<not> truthyField (badgeColor badge) \<Longrightarrow>
   generateAvatar eng env badge = ([], Inl (Error ''Invalid badge data provided''))"
  by (auto simp: generateAvatar_def)

text \<open>The theorem at a badge whose \<open>characterName\<close> is the empty string.\<close>

theorem generateAvatar_rejects_incomplete_badge_witness:
  "\<not> truthyField (characterName namelessBadge) \<and>
   generateAvatar v8 imageEnv namelessBadge = ([], Inl (Error ''Invalid badge data provided''))"
proof -
  have "\<not> truthyField (characterName namelessBadge)"
    by (simp add: namelessBadge_def truthyField_def)
  with generateAvatar_rejects_incomplete_badge [of namelessBadge v8 imageEnv]
  show ?thesis by simp
qed

section \<open>\<open>generateAvatar\<close>, lookup\<close>

subsection \<open>Every value returned is truthy\<close>

lemma naruto_fallback_truthy: "truthyR (literalRead fallbackImages ''Naruto'')"
  by (simp add: literalRead_def fallbackImages_def)

lemma seriesDefault_truthy: "truthyR (seriesDefault badge)"
  by (simp add: seriesDefault_def Let_def naruto_fallback_truthy)

lemma firstImageUrl_Some: "firstImageUrl eng data = Inr (Some u) \<Longrightarrow> truthy u"
  by (auto simp: firstImageUrl_def andThen_Inr Let_def truthyV_def split: if_splits)

lemma image_or_default_truthy:
  assumes "firstImageUrl eng data = Inr image_url"
    and "(case image_url of Some u \<Rightarrow> Inr (Some (Value u)) | None \<Rightarrow> Inr (seriesDefault badge)) =
         Inr avatar"
  shows "truthyR avatar"
  using assms by (cases image_url) (auto simp: seriesDefault_truthy dest: firstImageUrl_Some)

lemma searchCharacter_truthy:
  assumes "searchCharacter eng env badge = (rs, Inr avatar)"
  shows "truthyR avatar"
proof (cases "encodeURIComponent eng (templated (characterName badge) @ '' '' @ templated (anime badge))")
  case (Inl e)
  with assms show ?thesis by (simp add: searchCharacter_def)
next
  case (Inr q)
  with assms show ?thesis
    by (auto simp: searchCharacter_def andThen_Inr split: if_splits
        intro: image_or_default_truthy)
qed

lemma lookup_try_truthy:
  assumes "generateAvatar_lookup_try eng env badge = (rs, Inr avatar)"
  shows "truthyR avatar"
  using assms
  by (auto simp: generateAvatar_lookup_try_def Let_def split: if_splits dest: searchCharacter_truthy)

text \<open>
  \<open>C3\<close>, as amended. For every badge whose \<open>characterName\<close> and \<open>anime\<close> are
  present and not empty, the lookup variant never fails: whatever the engine and the
  search endpoint do, it returns a truthy value (an image of the table, the image URL
  of the first search result, or a default image) and propagates no error.
\<close>

theorem generateAvatar_lookup_never_fails:
  assumes "truthyField (characterName badge)" and "truthyField (anime badge)"
  shows "\<exists>avatar. outcome (generateAvatar_lookup eng env badge) = Inr avatar \<and> truthyR avatar"
proof -
  obtain rs r where t: "generateAvatar_lookup_try eng env badge = (rs, r)"
    by (cases "generateAvatar_lookup_try eng env badge")
  show ?thesis
  proof (cases r)
    case (Inl e)
    with t assms show ?thesis by (simp add: generateAvatar_lookup_def)
  next
    case (Inr avatar)
    with t have "truthyR avatar" by (auto dest: lookup_try_truthy)
    with t Inr assms show ?thesis by (simp add: generateAvatar_lookup_def)
  qed
qed

text \<open>
  The definitions of the model and of the example engine that the examples of the
  lookup variant unfold.
\<close>

lemmas lookup_model_defs =
  generateAvatar_lookup_def generateAvatar_lookup_try_def searchCharacter_def literalRead_def
  characterImages_def fallbackImages_def objectPrototypeMembers_def truthyField_def templated_def
  searchFails_def ok_def Error_def TypeError_def decimal.simps digit_def
  v8_def encodeUnit_def uriUnreserved_def percentEncoded_def

text \<open>The theorem at a badge outside the table, with the network down.\<close>

theorem generateAvatar_lookup_never_fails_witness:
  "truthyField (characterName muzanBadge) \<and> truthyField (anime muzanBadge) \<and>
   (\<exists>avatar. outcome (generateAvatar_lookup v8 offlineSearch muzanBadge) = Inr avatar \<and>
      truthyR avatar)"
proof -
  have 1: "truthyField (characterName muzanBadge)" by (simp add: muzanBadge_def truthyField_def)
  have 2: "truthyField (anime muzanBadge)" by (simp add: muzanBadge_def truthyField_def)
  from generateAvatar_lookup_never_fails [OF 1 2, of v8 offlineSearch] 1 2 show ?thesis by simp
qed

text \<open>
  \<open>C3\<close> as stated fails: the guard in front of the \<open>try\<close> block throws for a
  badge whose \<open>characterName\<close> is the empty string.
\<close>

theorem generateAvatar_lookup_guard_counterexample:
  "generateAvatar_lookup v8 offlineSearch namelessBadge =
     ([], Inl (Error ''Invalid badge data provided''))"
  by (simp add: generateAvatar_lookup_def namelessBadge_def truthyField_def)

text \<open>
  A name that \<open>Object.prototype\<close> defines is found in the table, as the inherited
  member, and returned without a search.
\<close>

lemma inherited_member_returned:
  "generateAvatar_lookup v8 offlineSearch
     \<lparr>characterName = Some ''constructor'', anime = Some ''Naruto'', reason = None,
      badgeColor = None\<rparr> =
   ([], Inr (Some (PrototypeMember ''constructor'')))"
  by (simp add: lookup_model_defs)

subsection \<open>A failing search\<close>

lemma searchCharacter_fails:
  assumes "searchFails env"
  shows "\<exists>error. outcome (searchCharacter eng env badge) = Inl error"
proof (cases "encodeURIComponent eng (templated (characterName badge) @ '' '' @ templated (anime badge))")
  case (Inl e)
  then show ?thesis by (simp add: searchCharacter_def)
next
  case (Inr q)
  with assms show ?thesis
    by (cases "character_search env") (simp_all add: searchCharacter_def searchFails_def)
qed

text \<open>
  The other path: a search that succeeds without an image gives the default of the
  series, which is the image of Naruto for a series that has none.
\<close>

lemma empty_search_gives_series_default:
  assumes "truthyField (characterName badge)" and "truthyField (anime badge)"
    and "literalRead characterImages (templated (characterName badge)) = None"
    and "encodeURIComponent eng (templated (characterName badge) @ '' '' @ templated (anime badge)) =
         Inr searchQuery"
    and "character_search env = Inr response" and "ok response"
    and "body_json response = Inr data" and "firstImageUrl eng data = Inr None"
  shows "outcome (generateAvatar_lookup eng env badge) = Inr (seriesDefault badge)"
  using assms
  by (simp add: generateAvatar_lookup_def generateAvatar_lookup_try_def searchCharacter_def)

lemma seriesDefault_unknown:
  assumes "map_of fallbackImages (templated (anime badge)) = None"
    and "templated (anime badge) \<notin> set objectPrototypeMembers"
  shows "seriesDefault badge =
     Some (Value (JStr ''https://cdn.myanimelist.net/images/characters/2/284121.jpg''))"
  using assms by (simp add: seriesDefault_def literalRead_def fallbackImages_def)

text \<open>
  \<open>C4\<close>, as amended. For every badge with a \<open>characterName\<close> and an \<open>anime\<close>
  whose \<open>characterName\<close> the character-image table does not answer (it is no key of
  the table and no member of \<open>Object.prototype\<close>), when the call to the
  character-search endpoint fails, the lookup variant returns the global default image
  (the image of Naruto) whatever the value of \<open>anime\<close>, and never raises.
\<close>

theorem failed_search_gives_global_default:
  assumes "truthyField (characterName badge)" and "truthyField (anime badge)"
    and "literalRead characterImages (templated (characterName badge)) = None"
    and "searchFails env"
  shows "outcome (generateAvatar_lookup eng env badge) =
     Inr (Some (Value (JStr ''https://cdn.myanimelist.net/images/characters/2/284121.jpg'')))"
proof -
  from assms(4) obtain error where "outcome (searchCharacter eng env badge) = Inl error"
    using searchCharacter_fails by blast
  then obtain rs where "searchCharacter eng env badge = (rs, Inl error)"
    by (cases "searchCharacter eng env badge") simp
  with assms(1-3) show ?thesis
    by (simp add: generateAvatar_lookup_def generateAvatar_lookup_try_def)
qed

text \<open>The theorem at a Demon Slayer badge, with a search that answers 500.\<close>

theorem failed_search_gives_global_default_witness:
  "truthyField (characterName muzanBadge) \<and> truthyField (anime muzanBadge) \<and>
   literalRead characterImages (templated (characterName muzanBadge)) = None \<and>
   searchFails failingSearch \<and>
   outcome (generateAvatar_lookup v8 failingSearch muzanBadge) =
     Inr (Some (Value (JStr ''https://cdn.myanimelist.net/images/characters/2/284121.jpg'')))"
proof -
  have 1: "truthyField (characterName muzanBadge)" by (simp add: muzanBadge_def truthyField_def)
  have 2: "truthyField (anime muzanBadge)" by (simp add: muzanBadge_def truthyField_def)
  have 3: "literalRead characterImages (templated (characterName muzanBadge)) = None"
    by (simp add: lookup_model_defs muzanBadge_def)
  have 4: "searchFails failingSearch"
    by (simp add: searchFails_def failingSearch_def serverErrorResponse_def ok_def)
  from failed_search_gives_global_default [OF 1 2 3 4, of v8] 1 2 3 4 show ?thesis by simp
qed

text \<open>
  \<open>C4\<close> as stated fails: for a Demon Slayer badge outside the table and a search
  request that is rejected, the default of the series is the image of Tanjiro, and the
  lookup variant returns the image of Naruto.
\<close>

theorem failed_search_series_default_counterexample:
  "anime muzanBadge = Some ''Demon Slayer'' \<and>
   literalRead characterImages (templated (characterName muzanBadge)) = None \<and>
   searchFails offlineSearch \<and>
   seriesDefault muzanBadge =
     Some (Value (JStr ''https://cdn.myanimelist.net/images/characters/15/271763.jpg'')) \<and>
   generateAvatar_lookup v8 offlineSearch muzanBadge =
     ([\<lparr>url = ''https://api.jikan.moe/v4/characters?q=Muzan%20Demon%20Slayer&limit=1'', payload = []\<rparr>],
      Inr (Some (Value (JStr ''https://cdn.myanimelist.net/images/characters/2/284121.jpg''))))"
  by (simp add: lookup_model_defs seriesDefault_def muzanBadge_def offlineSearch_def)


section \<open>\<open>getUserProfileData\<close>\<close>

text \<open>The definitions of the model that the examples of \<open>getUserProfileData\<close> unfold.\<close>

lemmas github_model_defs =
  getUserProfileData_def getUserProfileData_try_def getUserProfileData_catch_def ok_def
  Error_def TypeError_def decimal.simps digit_def

subsection \<open>Rate limiting\<close>

text \<open>
  An error that reaches the \<open>catch\<close> block with the marker in its message is
  turned into the rate-limit error.
\<close>

lemma rate_limit_marker_classified:
  assumes "getUserProfileData_try order userFetch reposFetch username = Inl error"
    and "str_includes (message error) ''API rate limit exceeded''"
  shows "getUserProfileData order userFetch reposFetch username =
     Inl (Error ''GitHub API rate limit exceeded. Please wait and try again later.'')"
  using assms by (simp add: getUserProfileData_def getUserProfileData_catch_def)

text \<open>
  No response that is not ok leads there: the message of the error thrown for it is
  made of a fixed text and the digits of the status, and the marker is not in it.
\<close>

lemma not_includes_without_first:
  assumes "c \<notin> set s"
  shows "\<not> str_includes s (c # m)"
  using assms by (induction s) auto

lemma decimal_digits: "set (decimal n) \<subseteq> set ''0123456789''"
proof (induction n rule: decimal.induct)
  case (1 n)
  have d: "\<And>k. k < 10 \<Longrightarrow> digit k \<in> set ''0123456789''"
  proof -
    fix k :: nat
    assume "k < 10"
    then have "k \<in> {0, 1, 2, 3, 4, 5, 6, 7, 8, 9}" by auto
    then show "digit k \<in> set ''0123456789''" by (auto simp: digit_def)
  qed
  show ?case
  proof (cases "n < 10")
    case True
    then show ?thesis using d [of n] by (subst decimal.simps) simp
  next
    case False
    have "n mod 10 < 10" by simp
    then have "digit (n mod 10) \<in> set ''0123456789''" by (rule d)
    with False 1 show ?thesis by (subst decimal.simps) simp
  qed
qed

lemma status_message_marker:
  "\<not> str_includes (''Failed to fetch user data. Status: '' @ decimal n) ''API rate limit exceeded''"
proof -
  have "CHR ''A'' \<notin> set (decimal n)" using decimal_digits [of n] by auto
  then have "CHR ''A'' \<notin> set (''Failed to fetch user data. Status: '' @ decimal n)" by simp
  then show ?thesis by (rule not_includes_without_first)
qed

lemma http_error_never_rate_limited:
  assumes "\<not> ok userResponse" and "status userResponse \<noteq> 404"
  shows "getUserProfileData order (Inr userResponse) (Inr reposResponse) username =
     Inl (Error (''Failed to fetch user data. Status: '' @ decimal (status userResponse)))"
proof -
  have "getUserProfileData_try order (Inr userResponse) (Inr reposResponse) username =
      Inl (Error (''Failed to fetch user data. Status: '' @ decimal (status userResponse)))"
    using assms by (simp add: getUserProfileData_try_def)
  moreover have "getUserProfileData_catch
        (Error (''Failed to fetch user data. Status: '' @ decimal (status userResponse))) =
      Error (''Failed to fetch user data. Status: '' @ decimal (status userResponse))"
    using status_message_marker [of "status userResponse"]
    by (simp add: getUserProfileData_catch_def Error_def)
  ultimately show ?thesis by (simp add: getUserProfileData_def)
qed

text \<open>
  \<open>C7\<close>, on the code. GitHub signals an exhausted quota by a response with status
  403 whose body carries the message \<open>API rate limit exceeded for ...\<close>. The body of a
  response that is not ok is never read: \<open>getUserProfileData\<close> fails with the generic
  error that carries the status, and the rate-limit error is not produced.
\<close>

theorem rate_limited_response_not_classified:
  "status rateLimitedResponse = 403 \<and>
   body_json rateLimitedResponse =
     Inr (JObj [(''message'', JStr ''API rate limit exceeded for 203.0.113.7.'')]) \<and>
   getUserProfileData UserFirst (Inr rateLimitedResponse) (Inr noReposResponse) ''octocat'' =
     Inl (Error ''Failed to fetch user data. Status: 403'')"
  by (simp add: github_model_defs rateLimitedResponse_def noReposResponse_def)

subsection \<open>A user that does not exist\<close>

lemma prefix_without_last:
  assumes "prefix m (x @ [d])" and "d \<notin> set m"
  shows "prefix m x"
proof -
  from assms(1) have "m = x @ [d] \<or> prefix m x" by (simp add: prefix_snoc)
  with assms(2) show ?thesis by auto
qed

lemma str_includes_snoc:
  assumes "d \<notin> set m" and "m \<noteq> []"
  shows "str_includes (u @ [d]) m = str_includes u m"
proof (induction u)
  case Nil
  from assms show ?case by (cases m) auto
next
  case (Cons c u)
  have "prefix m (c # u @ [d]) = prefix m (c # u)"
  proof
    assume "prefix m (c # u @ [d])"
    then have "prefix m ((c # u) @ [d])" by simp
    then show "prefix m (c # u)" using assms(1) by (rule prefix_without_last)
  next
    assume "prefix m (c # u)"
    then have "prefix m ((c # u) @ [d])" by (rule prefix_prefix)
    then show "prefix m (c # u @ [d])" by simp
  qed
  with Cons show ?case by simp
qed

lemma not_found_message_marker:
  "str_includes (''GitHub user not found: '' @ username @ ''.'') ''API rate limit exceeded'' =
   str_includes username ''API rate limit exceeded''"
proof -
  have "str_includes (''GitHub user not found: '' @ username @ ''.'') ''API rate limit exceeded'' =
        str_includes (username @ ''.'') ''API rate limit exceeded''"
    by simp
  also have "\<dots> = str_includes username ''API rate limit exceeded''"
    by (rule str_includes_snoc) simp_all
  finally show ?thesis .
qed

text \<open>
  \<open>C8\<close>, as amended. For every username that does not contain the text
  \<open>API rate limit exceeded\<close>, if both requests resolve and the user-metadata response
  has status 404, \<open>getUserProfileData\<close> fails with the not-found error naming that
  username, whatever the status and body of the repositories response: the user
  response is checked before the repositories response.
\<close>

theorem not_found_before_repository_status:
  assumes "status userResponse = 404"
    and "\<not> str_includes username ''API rate limit exceeded''"
  shows "getUserProfileData order (Inr userResponse) (Inr reposResponse) username =
     Inl (Error (''GitHub user not found: '' @ username @ ''.''))"
proof -
  have "\<not> ok userResponse" using assms(1) by (simp add: ok_def)
  with assms(1) have "getUserProfileData_try order (Inr userResponse) (Inr reposResponse) username =
      Inl (Error (''GitHub user not found: '' @ username @ ''.''))"
    by (simp add: getUserProfileData_try_def)
  moreover have "getUserProfileData_catch (Error (''GitHub user not found: '' @ username @ ''.'')) =
      Error (''GitHub user not found: '' @ username @ ''.'')"
    using assms(2) not_found_message_marker [of username]
    by (simp add: getUserProfileData_catch_def Error_def)
  ultimately show ?thesis by (simp add: getUserProfileData_def)
qed

text \<open>The theorem at a repositories response with status 500.\<close>

theorem not_found_before_repository_status_witness:
  "status notFoundResponse = 404 \<and> \<not> ok serverErrorResponse \<and>
   \<not> str_includes ''octocat'' ''API rate limit exceeded'' \<and>
   getUserProfileData ReposFirst (Inr notFoundResponse) (Inr serverErrorResponse) ''octocat'' =
     Inl (Error ''GitHub user not found: octocat.'')"
proof -
  have 1: "status notFoundResponse = 404" by (simp add: notFoundResponse_def)
  have 2: "\<not> str_includes ''octocat'' ''API rate limit exceeded''" by simp
  have 3: "\<not> ok serverErrorResponse" by (simp add: serverErrorResponse_def ok_def)
  from not_found_before_repository_status [OF 1 2, of ReposFirst serverErrorResponse] 1 2 3
  show ?thesis by simp
qed

text \<open>
  \<open>C8\<close> as stated fails. When the repositories request is rejected, \<open>Promise.all\<close>
  rejects and no response is looked at: the error is the rejection, not the not-found
  error. And a not-found error whose username contains the marker is turned into the
  rate-limit error.
\<close>

theorem not_found_precedence_counterexample:
  "status notFoundResponse = 404 \<and>
   getUserProfileData UserFirst (Inr notFoundResponse) (Inl (TypeError ''Failed to fetch'')) ''octocat'' =
     Inl (TypeError ''Failed to fetch'') \<and>
   getUserProfileData UserFirst (Inr notFoundResponse) (Inr noReposResponse)
       ''API rate limit exceeded'' =
     Inl (Error ''GitHub API rate limit exceeded. Please wait and try again later.'')"
  by (simp add: github_model_defs notFoundResponse_def noReposResponse_def)


end
